theory Spec2Isabelle
  imports Main "HOL-Library.Word"
begin

section \<open>The mock NVML library: data model\<close>

text \<open>
  A shallow embedding of \<^verbatim>\<open>pkg/gpu/mocknvml\<close>: the fixture table of
  \<^verbatim>\<open>data/devices.h\<close>, the reference-counted session of \<^verbatim>\<open>src/nvml_init.c\<close>
  and the query functions of \<^verbatim>\<open>src/nvml_device.c\<close>, \<^verbatim>\<open>nvml_memory.c\<close>,
  \<^verbatim>\<open>nvml_mig.c\<close>, \<^verbatim>\<open>nvml_system.c\<close> and \<^verbatim>\<open>nvml_stubs.c\<close>.

  C types: \<^verbatim>\<open>unsigned int\<close> is a 32-bit word, \<^verbatim>\<open>unsigned long long\<close> and
  \<^verbatim>\<open>uintptr_t\<close> are 64-bit words, \<^verbatim>\<open>int\<close> is a 32-bit word read in two's
  complement with \<open>sint\<close>. A pointer argument is an \<open>option\<close>: \<open>None\<close> is
  \<^verbatim>\<open>NULL\<close>, \<open>Some v\<close> points to an object that holds \<open>v\<close>; a function returns
  its return code together with the contents of the objects it may write to.
\<close>

type_synonym c_uint = "32 word"
type_synonym c_int = "32 word"
type_synonym c_ull = "64 word"
type_synonym uintptr_t = "64 word"

text \<open>\<^verbatim>\<open>nvmlReturn_t\<close>, as listed in \<^verbatim>\<open>bridge/nvml_types.h\<close>.\<close>

datatype nvmlReturn_t =
    NVML_SUCCESS
  | NVML_ERROR_UNINITIALIZED
  | NVML_ERROR_INVALID_ARGUMENT
  | NVML_ERROR_NOT_SUPPORTED
  | NVML_ERROR_NO_PERMISSION
  | NVML_ERROR_ALREADY_INITIALIZED
  | NVML_ERROR_NOT_FOUND
  | NVML_ERROR_INSUFFICIENT_SIZE
  | NVML_ERROR_INSUFFICIENT_POWER
  | NVML_ERROR_DRIVER_NOT_LOADED
  | NVML_ERROR_TIMEOUT
  | NVML_ERROR_IRQ_ISSUE
  | NVML_ERROR_LIBRARY_NOT_FOUND
  | NVML_ERROR_FUNCTION_NOT_FOUND
  | NVML_ERROR_CORRUPTED_INFOROM
  | NVML_ERROR_GPU_IS_LOST
  | NVML_ERROR_RESET_REQUIRED
  | NVML_ERROR_OPERATING_SYSTEM
  | NVML_ERROR_LIB_RM_VERSION_MISMATCH
  | NVML_ERROR_IN_USE
  | NVML_ERROR_MEMORY
  | NVML_ERROR_NO_DATA
  | NVML_ERROR_VGPU_ECC_NOT_SUPPORTED
  | NVML_ERROR_INSUFFICIENT_RESOURCES
  | NVML_ERROR_FREQ_NOT_SUPPORTED
  | NVML_ERROR_ARGUMENT_VERSION_MISMATCH
  | NVML_ERROR_DEPRECATED
  | NVML_ERROR_NOT_READY
  | NVML_ERROR_GPU_NOT_FOUND
  | NVML_ERROR_INVALID_STATE
  | NVML_ERROR_UNKNOWN

section \<open>Session state (nvml\_init.c)\<close>

text \<open>
  The only mutable state is \<^verbatim>\<open>static int g_nvml_ref_count = 0\<close>. Every access
  happens with \<^verbatim>\<open>g_init_mutex\<close> held, so each function is one atomic step on the
  counter; the functions take the counter and return the new one. The increment of
  a C \<^verbatim>\<open>int\<close> is modelled as the 32-bit two's complement addition that the
  compiled code performs.
\<close>

definition nvmlInit_v2 :: "c_int \<Rightarrow> nvmlReturn_t \<times> c_int" where
  "nvmlInit_v2 g = (NVML_SUCCESS, g + 1)"

definition nvmlInitWithFlags :: "c_uint \<Rightarrow> c_int \<Rightarrow> nvmlReturn_t \<times> c_int" where
  "nvmlInitWithFlags flags g = nvmlInit_v2 g"

definition nvmlInit :: "c_int \<Rightarrow> nvmlReturn_t \<times> c_int" where
  "nvmlInit g = nvmlInit_v2 g"

definition nvmlShutdown :: "c_int \<Rightarrow> nvmlReturn_t \<times> c_int" where
  "nvmlShutdown g =
     (if sint g \<le> 0 then (NVML_ERROR_UNINITIALIZED, g)
      else (NVML_SUCCESS, g - 1))"

definition nvml_is_initialized :: "c_int \<Rightarrow> bool" where
  "nvml_is_initialized g = (0 < sint g)"

text \<open>A client's sequence of lifecycle calls, run from a given counter.\<close>

datatype lifecycle_call = Init | Shutdown

fun lifecycle_step :: "c_int \<Rightarrow> lifecycle_call \<Rightarrow> c_int" where
  "lifecycle_step g Init = snd (nvmlInit_v2 g)"
| "lifecycle_step g Shutdown = snd (nvmlShutdown g)"

definition lifecycle_run :: "lifecycle_call list \<Rightarrow> c_int \<Rightarrow> c_int" where
  "lifecycle_run cs g = foldl lifecycle_step g cs"

text \<open>
  The net number of outstanding inits of a call sequence, as the specification
  counts it: inits minus successful shutdowns, a shutdown being successful when
  an init is outstanding.
\<close>

fun outstanding_step :: "nat \<Rightarrow> lifecycle_call \<Rightarrow> nat" where
  "outstanding_step n Init = Suc n"
| "outstanding_step n Shutdown = n - 1"

definition outstanding :: "lifecycle_call list \<Rightarrow> nat" where
  "outstanding cs = foldl outstanding_step 0 cs"

section \<open>Constants of the public header\<close>

text \<open>
  The sources include \<^verbatim>\<open>../include/nvml.h\<close>, which is not part of them. The
  enumerators, the struct version tag and the buffer sizes that the functions
  take from it are the fields of a record that every such function receives:
  the properties below hold for every value of these constants. A C enumeration
  argument is the 32-bit word of its value.
\<close>

record nvml_h =
  nvmlMemory_v2 :: c_uint
  NVML_FEATURE_DISABLED :: c_uint
  NVML_FEATURE_ENABLED :: c_uint
  NVML_TEMPERATURE_GPU :: c_uint
  NVML_CLOCK_GRAPHICS :: c_uint
  NVML_CLOCK_SM :: c_uint
  NVML_CLOCK_MEM :: c_uint
  NVML_CLOCK_ID_CURRENT :: c_uint
  NVML_TOPOLOGY_SYSTEM :: c_uint
  NVML_P2P_STATUS_OK :: c_uint
  NVML_DEVICE_PCI_BUS_ID_BUFFER_SIZE :: nat
  NVML_DEVICE_PCI_BUS_ID_BUFFER_V2_SIZE :: nat
  sizeof_busId :: nat
  sizeof_busIdLegacy :: nat

text \<open>
  The values of NVIDIA's published \<^verbatim>\<open>nvml.h\<close>, for evaluating the functions
  at concrete arguments.
\<close>

definition nvml_h_published :: nvml_h where
  "nvml_h_published =
   \<lparr>nvmlMemory_v2 = 0x02000028, NVML_FEATURE_DISABLED = 0, NVML_FEATURE_ENABLED = 1,
     NVML_TEMPERATURE_GPU = 0, NVML_CLOCK_GRAPHICS = 0, NVML_CLOCK_SM = 1,
     NVML_CLOCK_MEM = 2, NVML_CLOCK_ID_CURRENT = 0, NVML_TOPOLOGY_SYSTEM = 50,
     NVML_P2P_STATUS_OK = 0, NVML_DEVICE_PCI_BUS_ID_BUFFER_SIZE = 32,
     NVML_DEVICE_PCI_BUS_ID_BUFFER_V2_SIZE = 16, sizeof_busId = 32,
     sizeof_busIdLegacy = 16\<rparr>"

text \<open>\<^verbatim>\<open>NVML_BRAND_TESLA = 2\<close> in \<^verbatim>\<open>bridge/nvml_types.h\<close>.\<close>

definition NVML_BRAND_TESLA :: c_uint where
  "NVML_BRAND_TESLA = 2"

section \<open>Output structures\<close>

text \<open>\<^verbatim>\<open>nvmlDevice_t\<close> is a struct around one pointer; its value is the pointer's.\<close>

type_synonym nvmlDevice_t = uintptr_t

record nvmlPciInfo_t =
  pciInfo_busIdLegacy :: string
  pciInfo_domain :: c_uint
  pciInfo_bus :: c_uint
  pciInfo_device :: c_uint
  pciInfo_pciDeviceId :: c_uint
  pciInfo_pciSubSystemId :: c_uint
  pciInfo_busId :: string

record nvmlMemory_t =
  mem_total :: c_ull
  mem_free :: c_ull
  mem_used :: c_ull

record nvmlMemory_v2_t =
  mem2_version :: c_uint
  mem2_total :: c_ull
  mem2_reserved :: c_ull
  mem2_free :: c_ull
  mem2_used :: c_ull

record nvmlBAR1Memory_t =
  bar1Total :: c_ull
  bar1Free :: c_ull
  bar1Used :: c_ull

record nvmlDeviceAttributes_t =
  multiprocessorCount :: c_uint
  sharedCopyEngineCount :: c_uint
  sharedDecoderCount :: c_uint
  sharedEncoderCount :: c_uint
  sharedJpegCount :: c_uint
  sharedOfaCount :: c_uint
  gpuInstanceSliceCount :: c_uint
  computeInstanceSliceCount :: c_uint
  memorySizeMB :: c_ull

text \<open>An event data record is only ever tested for \<^verbatim>\<open>NULL\<close>.\<close>

typedecl nvmlEventData_t

section \<open>C strings and buffers\<close>

text \<open>
  A C string is the list of its characters before the terminator; a buffer is
  the list of the bytes it holds. \<^verbatim>\<open>strncpy(dest, src, n)\<close> writes exactly
  \<open>n\<close> bytes: the characters of \<open>src\<close>, cut at \<open>n\<close>, then NUL bytes up to
  \<open>n\<close>. The bytes of \<open>dest\<close> from \<open>n\<close> on stay.
\<close>

definition NUL :: char where
  "NUL = CHR 0x00"

definition strncpy :: "string \<Rightarrow> string \<Rightarrow> nat \<Rightarrow> string" where
  "strncpy dest src n = take n (src @ replicate (n - length src) NUL) @ drop n dest"

section \<open>The device fixture table (data/devices.h)\<close>

text \<open>
  A character array of a fixture entry is modelled by the string that
  initialises it. The struct declares
  \<^verbatim>\<open>char pci_bus_id[NVML_DEVICE_PCI_BUS_ID_BUFFER_V2_SIZE]\<close> directly before
  \<^verbatim>\<open>char pci_bus_id_legacy[NVML_DEVICE_PCI_BUS_ID_BUFFER_SIZE]\<close>; what a string
  function reads at \<^verbatim>\<open>pci_bus_id\<close> is given by \<open>pci_bus_id_read\<close> below. The
  other arrays (\<^verbatim>\<open>uuid\<close>, \<^verbatim>\<open>name\<close>, \<^verbatim>\<open>pci_bus_id_legacy\<close>, \<^verbatim>\<open>serial\<close>) are
  taken to be longer than their initialisers, so that each holds its string
  with the terminator. A member that an initialiser leaves out is zero, as C
  initialises it: entries 0 and 7 name no compute capability.
\<close>

record mock_device_info_t =
  uuid :: string
  name :: string
  pci_bus_id :: string
  pci_bus_id_legacy :: string
  serial :: string
  pci_domain :: c_uint
  pci_bus :: c_uint
  pci_device :: c_uint
  pci_device_id :: c_uint
  pci_subsystem_id :: c_uint
  pci_base_class :: c_uint
  pci_sub_class :: c_uint
  memory_total :: c_ull
  memory_free :: c_ull
  memory_used :: c_ull
  minor_number :: c_uint
  brand :: c_uint
  persistence_mode :: c_uint
  display_mode :: c_uint
  display_active :: c_uint
  temperature :: c_uint
  power_usage :: c_uint
  power_limit :: c_uint
  clock_graphics :: c_uint
  clock_sm :: c_uint
  clock_memory :: c_uint
  cuda_compute_capability_major :: c_int
  cuda_compute_capability_minor :: c_int

definition mock_device_0 :: mock_device_info_t where
  "mock_device_0 =
   \<lparr>uuid = ''GPU-4404041a-04cf-1ccf-9e70-f139a9b1e23c'', name = ''NVIDIA A100-SXM4-40GB'',
     pci_bus_id = ''00000000:00:00.0'', pci_bus_id_legacy = ''0000:00:00.0'',
     serial = ''1563221000001'', pci_domain = 0, pci_bus = 0, pci_device = 0,
     pci_device_id = 0x20B010DE, pci_subsystem_id = 0x134F10DE, pci_base_class = 0x03,
     pci_sub_class = 0x02, memory_total = 42949672960, memory_free = 42949672960,
     memory_used = 0, minor_number = 0, brand = NVML_BRAND_TESLA, persistence_mode = 1,
     display_mode = 0, display_active = 0, temperature = 30, power_usage = 100000,
     power_limit = 400000, clock_graphics = 1410, clock_sm = 1410, clock_memory = 1593,
     cuda_compute_capability_major = 0, cuda_compute_capability_minor = 0\<rparr>"

definition mock_device_1 :: mock_device_info_t where
  "mock_device_1 =
   \<lparr>uuid = ''GPU-b8ea3855-276c-c9cb-b366-c6fa655957c5'', name = ''NVIDIA A100-SXM4-40GB'',
     pci_bus_id = ''00000000:01:00.0'', pci_bus_id_legacy = ''0000:01:00.0'',
     serial = ''1563221000002'', pci_domain = 0, pci_bus = 1, pci_device = 0,
     pci_device_id = 0x20B010DE, pci_subsystem_id = 0x134F10DE, pci_base_class = 0x03,
     pci_sub_class = 0x02, memory_total = 42949672960, memory_free = 42949672960,
     memory_used = 0, minor_number = 1, brand = NVML_BRAND_TESLA, persistence_mode = 1,
     display_mode = 0, display_active = 0, temperature = 31, power_usage = 100000,
     power_limit = 400000, clock_graphics = 1410, clock_sm = 1410, clock_memory = 1593,
     cuda_compute_capability_major = 8, cuda_compute_capability_minor = 0\<rparr>"

definition mock_device_2 :: mock_device_info_t where
  "mock_device_2 =
   \<lparr>uuid = ''GPU-36da4373-4344-3b36-9951-6c7af0e8d7a0'', name = ''NVIDIA A100-SXM4-40GB'',
     pci_bus_id = ''00000000:02:00.0'', pci_bus_id_legacy = ''0000:02:00.0'',
     serial = ''1563221000003'', pci_domain = 0, pci_bus = 2, pci_device = 0,
     pci_device_id = 0x20B010DE, pci_subsystem_id = 0x134F10DE, pci_base_class = 0x03,
     pci_sub_class = 0x02, memory_total = 42949672960, memory_free = 42949672960,
     memory_used = 0, minor_number = 2, brand = NVML_BRAND_TESLA, persistence_mode = 1,
     display_mode = 0, display_active = 0, temperature = 32, power_usage = 100000,
     power_limit = 400000, clock_graphics = 1410, clock_sm = 1410, clock_memory = 1593,
     cuda_compute_capability_major = 8, cuda_compute_capability_minor = 0\<rparr>"

definition mock_device_3 :: mock_device_info_t where
  "mock_device_3 =
   \<lparr>uuid = ''GPU-3dc6c589-3bea-2eb8-263e-d7a5b2b3b1ba'', name = ''NVIDIA A100-SXM4-40GB'',
     pci_bus_id = ''00000000:03:00.0'', pci_bus_id_legacy = ''0000:03:00.0'',
     serial = ''1563221000004'', pci_domain = 0, pci_bus = 3, pci_device = 0,
     pci_device_id = 0x20B010DE, pci_subsystem_id = 0x134F10DE, pci_base_class = 0x03,
     pci_sub_class = 0x02, memory_total = 42949672960, memory_free = 42949672960,
     memory_used = 0, minor_number = 3, brand = NVML_BRAND_TESLA, persistence_mode = 1,
     display_mode = 0, display_active = 0, temperature = 33, power_usage = 100000,
     power_limit = 400000, clock_graphics = 1410, clock_sm = 1410, clock_memory = 1593,
     cuda_compute_capability_major = 8, cuda_compute_capability_minor = 0\<rparr>"

definition mock_device_4 :: mock_device_info_t where
  "mock_device_4 =
   \<lparr>uuid = ''GPU-7e8ad30b-b5d9-cd98-3fcf-9b3e4d2ba6a0'', name = ''NVIDIA A100-SXM4-40GB'',
     pci_bus_id = ''00000000:04:00.0'', pci_bus_id_legacy = ''0000:04:00.0'',
     serial = ''1563221000005'', pci_domain = 0, pci_bus = 4, pci_device = 0,
     pci_device_id = 0x20B010DE, pci_subsystem_id = 0x134F10DE, pci_base_class = 0x03,
     pci_sub_class = 0x02, memory_total = 42949672960, memory_free = 42949672960,
     memory_used = 0, minor_number = 4, brand = NVML_BRAND_TESLA, persistence_mode = 1,
     display_mode = 0, display_active = 0, temperature = 34, power_usage = 100000,
     power_limit = 400000, clock_graphics = 1410, clock_sm = 1410, clock_memory = 1593,
     cuda_compute_capability_major = 8, cuda_compute_capability_minor = 0\<rparr>"

definition mock_device_5 :: mock_device_info_t where
  "mock_device_5 =
   \<lparr>uuid = ''GPU-e81b08cb-3aa9-4add-d834-1d3f537ea20f'', name = ''NVIDIA A100-SXM4-40GB'',
     pci_bus_id = ''00000000:05:00.0'', pci_bus_id_legacy = ''0000:05:00.0'',
     serial = ''1563221000006'', pci_domain = 0, pci_bus = 5, pci_device = 0,
     pci_device_id = 0x20B010DE, pci_subsystem_id = 0x134F10DE, pci_base_class = 0x03,
     pci_sub_class = 0x02, memory_total = 42949672960, memory_free = 42949672960,
     memory_used = 0, minor_number = 5, brand = NVML_BRAND_TESLA, persistence_mode = 1,
     display_mode = 0, display_active = 0, temperature = 35, power_usage = 100000,
     power_limit = 400000, clock_graphics = 1410, clock_sm = 1410, clock_memory = 1593,
     cuda_compute_capability_major = 8, cuda_compute_capability_minor = 0\<rparr>"

definition mock_device_6 :: mock_device_info_t where
  "mock_device_6 =
   \<lparr>uuid = ''GPU-eca0e2dd-3d99-2271-10fd-1939fec48d42'', name = ''NVIDIA A100-SXM4-40GB'',
     pci_bus_id = ''00000000:06:00.0'', pci_bus_id_legacy = ''0000:06:00.0'',
     serial = ''1563221000007'', pci_domain = 0, pci_bus = 6, pci_device = 0,
     pci_device_id = 0x20B010DE, pci_subsystem_id = 0x134F10DE, pci_base_class = 0x03,
     pci_sub_class = 0x02, memory_total = 42949672960, memory_free = 42949672960,
     memory_used = 0, minor_number = 6, brand = NVML_BRAND_TESLA, persistence_mode = 1,
     display_mode = 0, display_active = 0, temperature = 36, power_usage = 100000,
     power_limit = 400000, clock_graphics = 1410, clock_sm = 1410, clock_memory = 1593,
     cuda_compute_capability_major = 8, cuda_compute_capability_minor = 0\<rparr>"

definition mock_device_7 :: mock_device_info_t where
  "mock_device_7 =
   \<lparr>uuid = ''GPU-c9dea5de-06db-44ff-c80f-ce1d407e77ba'', name = ''NVIDIA A100-SXM4-40GB'',
     pci_bus_id = ''00000000:07:00.0'', pci_bus_id_legacy = ''0000:07:00.0'',
     serial = ''1563221000008'', pci_domain = 0, pci_bus = 7, pci_device = 0,
     pci_device_id = 0x20B010DE, pci_subsystem_id = 0x134F10DE, pci_base_class = 0x03,
     pci_sub_class = 0x02, memory_total = 42949672960, memory_free = 42949672960,
     memory_used = 0, minor_number = 7, brand = NVML_BRAND_TESLA, persistence_mode = 1,
     display_mode = 0, display_active = 0, temperature = 37, power_usage = 100000,
     power_limit = 400000, clock_graphics = 1410, clock_sm = 1410, clock_memory = 1593,
     cuda_compute_capability_major = 0, cuda_compute_capability_minor = 0\<rparr>"
definition mock_devices :: "mock_device_info_t list" where
  "mock_devices =
     [mock_device_0, mock_device_1, mock_device_2, mock_device_3,
      mock_device_4, mock_device_5, mock_device_6, mock_device_7]"

text \<open>
  Reading \<^verbatim>\<open>mock_devices[index]\<close>. The array has 8 entries; a read outside
  them has no defined result in C and is \<open>None\<close> here, and a function that
  performs one returns \<open>None\<close>.
\<close>

definition mock_devices_at :: "c_uint \<Rightarrow> mock_device_info_t option" where
  "mock_devices_at index =
     (if unat index < length mock_devices then Some (mock_devices ! unat index) else None)"

text \<open>
  The C string that \<^verbatim>\<open>strcmp\<close> and \<^verbatim>\<open>strncpy\<close> see when they read at
  \<^verbatim>\<open>pci_bus_id\<close>. An initialiser shorter than the array leaves room for the
  terminator and the string is the initialiser. An initialiser that fills the
  array (16 characters in an array of 16) leaves none: as compiled, the read
  runs on into the adjacent \<^verbatim>\<open>pci_bus_id_legacy\<close> and stops at its terminator.
\<close>

definition pci_bus_id_read :: "nvml_h \<Rightarrow> mock_device_info_t \<Rightarrow> string" where
  "pci_bus_id_read H dev =
     (if length (pci_bus_id dev) < NVML_DEVICE_PCI_BUS_ID_BUFFER_V2_SIZE H then pci_bus_id dev
      else take (NVML_DEVICE_PCI_BUS_ID_BUFFER_V2_SIZE H) (pci_bus_id dev)
             @ pci_bus_id_legacy dev)"

subsection \<open>Handle codec\<close>

definition is_valid_device_index :: "c_uint \<Rightarrow> bool" where
  "is_valid_device_index index = (index < 8)"

definition is_valid_device_handle :: "nvmlDevice_t \<Rightarrow> bool" where
  "is_valid_device_handle device =
     (if device = 0 then False
      else let handle_value = device in 1 \<le> handle_value \<and> handle_value \<le> 8)"

text \<open>\<^verbatim>\<open>(unsigned int)-1\<close> is the largest 32-bit value, \<open>- 1\<close> as a word.\<close>

definition device_handle_to_index :: "nvmlDevice_t \<Rightarrow> c_uint" where
  "device_handle_to_index device =
     (if \<not> is_valid_device_handle device then - 1
      else ucast (device - 1))"

text \<open>
  The handle that the lookup functions store for a table index:
  \<^verbatim>\<open>(struct nvmlDevice_st*)(uintptr_t)(index + 1)\<close>, the sum being computed in
  \<^verbatim>\<open>unsigned int\<close>.
\<close>

definition handle_of_index :: "c_uint \<Rightarrow> nvmlDevice_t" where
  "handle_of_index index = ucast (index + 1)"

text \<open>The table entry that a valid handle stands for.\<close>

definition device_of_handle :: "nvmlDevice_t \<Rightarrow> mock_device_info_t" where
  "device_of_handle d = mock_devices ! unat (device_handle_to_index d)"

section \<open>Device queries (nvml\_device.c)\<close>

text \<open>
  Each function takes the session counter \<open>g\<close> where the C function calls
  \<^verbatim>\<open>nvml_is_initialized()\<close>, and returns the return code with the contents of
  its output objects after the call (unchanged where nothing is written).
\<close>

definition nvmlDeviceGetCount_v2 :: "c_int \<Rightarrow> c_uint option \<Rightarrow> nvmlReturn_t \<times> c_uint option" where
  "nvmlDeviceGetCount_v2 g deviceCount =
     (if \<not> nvml_is_initialized g then (NVML_ERROR_UNINITIALIZED, deviceCount)
      else if deviceCount = None then (NVML_ERROR_INVALID_ARGUMENT, deviceCount)
      else (NVML_SUCCESS, Some 8))"

definition nvmlDeviceGetHandleByIndex_v2 ::
  "c_int \<Rightarrow> c_uint \<Rightarrow> nvmlDevice_t option \<Rightarrow> nvmlReturn_t \<times> nvmlDevice_t option" where
  "nvmlDeviceGetHandleByIndex_v2 g index device =
     (if \<not> nvml_is_initialized g then (NVML_ERROR_UNINITIALIZED, device)
      else if device = None then (NVML_ERROR_INVALID_ARGUMENT, device)
      else if \<not> is_valid_device_index index then (NVML_ERROR_INVALID_ARGUMENT, device)
      else (NVML_SUCCESS, Some (handle_of_index index)))"

text \<open>
  The search loops \<^verbatim>\<open>for (i = 0; i < 8; i++)\<close> visit the 8 table entries in
  order and stop at the first match.
\<close>

fun handle_by_uuid_loop ::
  "string \<Rightarrow> c_uint \<Rightarrow> mock_device_info_t list \<Rightarrow> nvmlDevice_t option" where
  "handle_by_uuid_loop u i [] = None"
| "handle_by_uuid_loop u i (d # ds) =
     (if u = uuid d then Some (handle_of_index i) else handle_by_uuid_loop u (i + 1) ds)"

definition nvmlDeviceGetHandleByUUID ::
  "c_int \<Rightarrow> string option \<Rightarrow> nvmlDevice_t option \<Rightarrow> nvmlReturn_t \<times> nvmlDevice_t option" where
  "nvmlDeviceGetHandleByUUID g uuidStr device =
     (if \<not> nvml_is_initialized g then (NVML_ERROR_UNINITIALIZED, device)
      else case uuidStr of
        None \<Rightarrow> (NVML_ERROR_INVALID_ARGUMENT, device)
      | Some u \<Rightarrow>
          if device = None then (NVML_ERROR_INVALID_ARGUMENT, device)
          else (case handle_by_uuid_loop u 0 mock_devices of
                  Some h \<Rightarrow> (NVML_SUCCESS, Some h)
                | None \<Rightarrow> (NVML_ERROR_NOT_FOUND, device)))"

fun handle_by_pci_bus_id_loop ::
  "nvml_h \<Rightarrow> string \<Rightarrow> c_uint \<Rightarrow> mock_device_info_t list \<Rightarrow> nvmlDevice_t option" where
  "handle_by_pci_bus_id_loop H b i [] = None"
| "handle_by_pci_bus_id_loop H b i (d # ds) =
     (if b = pci_bus_id_read H d \<or> b = pci_bus_id_legacy d then Some (handle_of_index i)
      else handle_by_pci_bus_id_loop H b (i + 1) ds)"

definition nvmlDeviceGetHandleByPciBusId_v2 ::
  "nvml_h \<Rightarrow> c_int \<Rightarrow> string option \<Rightarrow> nvmlDevice_t option
   \<Rightarrow> nvmlReturn_t \<times> nvmlDevice_t option" where
  "nvmlDeviceGetHandleByPciBusId_v2 H g pciBusId device =
     (if \<not> nvml_is_initialized g then (NVML_ERROR_UNINITIALIZED, device)
      else case pciBusId of
        None \<Rightarrow> (NVML_ERROR_INVALID_ARGUMENT, device)
      | Some b \<Rightarrow>
          if device = None then (NVML_ERROR_INVALID_ARGUMENT, device)
          else (case handle_by_pci_bus_id_loop H b 0 mock_devices of
                  Some h \<Rightarrow> (NVML_SUCCESS, Some h)
                | None \<Rightarrow> (NVML_ERROR_NOT_FOUND, device)))"

text \<open>
  The two statements \<^verbatim>\<open>strncpy(buf, s, n); buf[n - 1] = '\0';\<close> that end every
  string query.
\<close>

definition strncpy_terminated :: "string \<Rightarrow> string \<Rightarrow> nat \<Rightarrow> string" where
  "strncpy_terminated dest src n = (strncpy dest src n)[n - 1 := NUL]"

text \<open>
  The comparison \<^verbatim>\<open>length < strlen(s) + 1\<close> is made in \<^verbatim>\<open>size_t\<close>, where the
  sum cannot wrap: it is the comparison of the natural numbers.
\<close>

definition nvmlDeviceGetName ::
  "c_int \<Rightarrow> nvmlDevice_t \<Rightarrow> string option \<Rightarrow> c_uint \<Rightarrow> (nvmlReturn_t \<times> string option) option" where
  "nvmlDeviceGetName g device nameBuf len =
     (if \<not> nvml_is_initialized g then Some (NVML_ERROR_UNINITIALIZED, nameBuf)
      else if nameBuf = None \<or> len = 0 then Some (NVML_ERROR_INVALID_ARGUMENT, nameBuf)
      else let index = device_handle_to_index device in
        if index = - 1 then Some (NVML_ERROR_INVALID_ARGUMENT, nameBuf)
        else case mock_devices_at index of
          None \<Rightarrow> None
        | Some dev \<Rightarrow>
            let device_name = name dev in
            if unat len < length device_name + 1
            then Some (NVML_ERROR_INSUFFICIENT_SIZE, nameBuf)
            else Some (NVML_SUCCESS,
              map_option (\<lambda>buf. strncpy_terminated buf device_name (unat len)) nameBuf))"

definition nvmlDeviceGetUUID ::
  "c_int \<Rightarrow> nvmlDevice_t \<Rightarrow> string option \<Rightarrow> c_uint \<Rightarrow> (nvmlReturn_t \<times> string option) option" where
  "nvmlDeviceGetUUID g device uuidBuf len =
     (if \<not> nvml_is_initialized g then Some (NVML_ERROR_UNINITIALIZED, uuidBuf)
      else if uuidBuf = None \<or> len = 0 then Some (NVML_ERROR_INVALID_ARGUMENT, uuidBuf)
      else let index = device_handle_to_index device in
        if index = - 1 then Some (NVML_ERROR_INVALID_ARGUMENT, uuidBuf)
        else case mock_devices_at index of
          None \<Rightarrow> None
        | Some dev \<Rightarrow>
            let device_uuid = uuid dev in
            if unat len < length device_uuid + 1
            then Some (NVML_ERROR_INSUFFICIENT_SIZE, uuidBuf)
            else Some (NVML_SUCCESS,
              map_option (\<lambda>buf. strncpy_terminated buf device_uuid (unat len)) uuidBuf))"

definition nvmlDeviceGetPciInfo_v3 ::
  "nvml_h \<Rightarrow> c_int \<Rightarrow> nvmlDevice_t \<Rightarrow> nvmlPciInfo_t option
   \<Rightarrow> (nvmlReturn_t \<times> nvmlPciInfo_t option) option" where
  "nvmlDeviceGetPciInfo_v3 H g device pci =
     (if \<not> nvml_is_initialized g then Some (NVML_ERROR_UNINITIALIZED, pci)
      else if pci = None then Some (NVML_ERROR_INVALID_ARGUMENT, pci)
      else let index = device_handle_to_index device in
        if index = - 1 then Some (NVML_ERROR_INVALID_ARGUMENT, pci)
        else case mock_devices_at index of
          None \<Rightarrow> None
        | Some dev \<Rightarrow>
            Some (NVML_SUCCESS, map_option (\<lambda>p. p
              \<lparr>pciInfo_domain := pci_domain dev,
                pciInfo_bus := pci_bus dev,
                pciInfo_device := pci_device dev,
                pciInfo_pciDeviceId := pci_device_id dev,
                pciInfo_pciSubSystemId := pci_subsystem_id dev,
                pciInfo_busId :=
                  strncpy_terminated (pciInfo_busId p) (pci_bus_id_legacy dev) (sizeof_busId H),
                pciInfo_busIdLegacy :=
                  strncpy_terminated (pciInfo_busIdLegacy p) (pci_bus_id_legacy dev)
                    (sizeof_busIdLegacy H)\<rparr>) pci))"

definition nvmlDeviceGetMinorNumber ::
  "c_int \<Rightarrow> nvmlDevice_t \<Rightarrow> c_uint option \<Rightarrow> (nvmlReturn_t \<times> c_uint option) option" where
  "nvmlDeviceGetMinorNumber g device minorNumber =
     (if \<not> nvml_is_initialized g then Some (NVML_ERROR_UNINITIALIZED, minorNumber)
      else if minorNumber = None then Some (NVML_ERROR_INVALID_ARGUMENT, minorNumber)
      else let index = device_handle_to_index device in
        if index = - 1 then Some (NVML_ERROR_INVALID_ARGUMENT, minorNumber)
        else case mock_devices_at index of
          None \<Rightarrow> None
        | Some dev \<Rightarrow> Some (NVML_SUCCESS, Some (minor_number dev)))"

definition nvmlDeviceGetIndex ::
  "c_int \<Rightarrow> nvmlDevice_t \<Rightarrow> c_uint option \<Rightarrow> nvmlReturn_t \<times> c_uint option" where
  "nvmlDeviceGetIndex g device index =
     (if \<not> nvml_is_initialized g then (NVML_ERROR_UNINITIALIZED, index)
      else if index = None then (NVML_ERROR_INVALID_ARGUMENT, index)
      else let dev_index = device_handle_to_index device in
        if dev_index = - 1 then (NVML_ERROR_INVALID_ARGUMENT, index)
        else (NVML_SUCCESS, Some dev_index))"

definition nvmlDeviceGetSerial ::
  "c_int \<Rightarrow> nvmlDevice_t \<Rightarrow> string option \<Rightarrow> c_uint \<Rightarrow> (nvmlReturn_t \<times> string option) option" where
  "nvmlDeviceGetSerial g device serialBuf len =
     (if \<not> nvml_is_initialized g then Some (NVML_ERROR_UNINITIALIZED, serialBuf)
      else if serialBuf = None \<or> len = 0 then Some (NVML_ERROR_INVALID_ARGUMENT, serialBuf)
      else let index = device_handle_to_index device in
        if index = - 1 then Some (NVML_ERROR_INVALID_ARGUMENT, serialBuf)
        else case mock_devices_at index of
          None \<Rightarrow> None
        | Some dev \<Rightarrow>
            let device_serial = serial dev in
            if unat len < length device_serial + 1
            then Some (NVML_ERROR_INSUFFICIENT_SIZE, serialBuf)
            else Some (NVML_SUCCESS,
              map_option (\<lambda>buf. strncpy_terminated buf device_serial (unat len)) serialBuf))"

definition nvmlDeviceGetBrand ::
  "c_int \<Rightarrow> nvmlDevice_t \<Rightarrow> c_uint option \<Rightarrow> (nvmlReturn_t \<times> c_uint option) option" where
  "nvmlDeviceGetBrand g device type =
     (if \<not> nvml_is_initialized g then Some (NVML_ERROR_UNINITIALIZED, type)
      else if type = None then Some (NVML_ERROR_INVALID_ARGUMENT, type)
      else let index = device_handle_to_index device in
        if index = - 1 then Some (NVML_ERROR_INVALID_ARGUMENT, type)
        else case mock_devices_at index of
          None \<Rightarrow> None
        | Some dev \<Rightarrow> Some (NVML_SUCCESS, Some (brand dev)))"

definition nvmlDeviceGetPersistenceMode ::
  "c_int \<Rightarrow> nvmlDevice_t \<Rightarrow> c_uint option \<Rightarrow> (nvmlReturn_t \<times> c_uint option) option" where
  "nvmlDeviceGetPersistenceMode g device mode =
     (if \<not> nvml_is_initialized g then Some (NVML_ERROR_UNINITIALIZED, mode)
      else if mode = None then Some (NVML_ERROR_INVALID_ARGUMENT, mode)
      else let index = device_handle_to_index device in
        if index = - 1 then Some (NVML_ERROR_INVALID_ARGUMENT, mode)
        else case mock_devices_at index of
          None \<Rightarrow> None
        | Some dev \<Rightarrow> Some (NVML_SUCCESS, Some (persistence_mode dev)))"

definition nvmlDeviceGetDisplayMode ::
  "c_int \<Rightarrow> nvmlDevice_t \<Rightarrow> c_uint option \<Rightarrow> (nvmlReturn_t \<times> c_uint option) option" where
  "nvmlDeviceGetDisplayMode g device display =
     (if \<not> nvml_is_initialized g then Some (NVML_ERROR_UNINITIALIZED, display)
      else if display = None then Some (NVML_ERROR_INVALID_ARGUMENT, display)
      else let index = device_handle_to_index device in
        if index = - 1 then Some (NVML_ERROR_INVALID_ARGUMENT, display)
        else case mock_devices_at index of
          None \<Rightarrow> None
        | Some dev \<Rightarrow> Some (NVML_SUCCESS, Some (display_mode dev)))"

definition nvmlDeviceGetDisplayActive ::
  "c_int \<Rightarrow> nvmlDevice_t \<Rightarrow> c_uint option \<Rightarrow> (nvmlReturn_t \<times> c_uint option) option" where
  "nvmlDeviceGetDisplayActive g device isActive =
     (if \<not> nvml_is_initialized g then Some (NVML_ERROR_UNINITIALIZED, isActive)
      else if isActive = None then Some (NVML_ERROR_INVALID_ARGUMENT, isActive)
      else let index = device_handle_to_index device in
        if index = - 1 then Some (NVML_ERROR_INVALID_ARGUMENT, isActive)
        else case mock_devices_at index of
          None \<Rightarrow> None
        | Some dev \<Rightarrow> Some (NVML_SUCCESS, Some (display_active dev)))"

definition nvmlDeviceGetBoardPartNumber ::
  "c_int \<Rightarrow> nvmlDevice_t \<Rightarrow> string option \<Rightarrow> c_uint \<Rightarrow> nvmlReturn_t \<times> string option" where
  "nvmlDeviceGetBoardPartNumber g device partNumber len =
     (if \<not> nvml_is_initialized g then (NVML_ERROR_UNINITIALIZED, partNumber)
      else if partNumber = None \<or> len = 0 then (NVML_ERROR_INVALID_ARGUMENT, partNumber)
      else let index = device_handle_to_index device in
        if index = - 1 then (NVML_ERROR_INVALID_ARGUMENT, partNumber)
        else let part = ''699-21001-0000-000'' in
          if unat len < length part + 1 then (NVML_ERROR_INSUFFICIENT_SIZE, partNumber)
          else (NVML_SUCCESS,
            map_option (\<lambda>buf. strncpy_terminated buf part (unat len)) partNumber))"

definition nvmlDeviceGetAttributes_v2 ::
  "c_int \<Rightarrow> nvmlDevice_t \<Rightarrow> nvmlDeviceAttributes_t option
   \<Rightarrow> nvmlReturn_t \<times> nvmlDeviceAttributes_t option" where
  "nvmlDeviceGetAttributes_v2 g device attributes =
     (if \<not> nvml_is_initialized g then (NVML_ERROR_UNINITIALIZED, attributes)
      else if attributes = None then (NVML_ERROR_INVALID_ARGUMENT, attributes)
      else let index = device_handle_to_index device in
        if index = - 1 then (NVML_ERROR_INVALID_ARGUMENT, attributes)
        else (NVML_SUCCESS, map_option (\<lambda>a. a
          \<lparr>multiprocessorCount := 108,
            sharedCopyEngineCount := 5,
            sharedDecoderCount := 0,
            sharedEncoderCount := 0,
            sharedJpegCount := 0,
            sharedOfaCount := 0,
            gpuInstanceSliceCount := 0,
            computeInstanceSliceCount := 0,
            memorySizeMB := 40960\<rparr>) attributes))"

definition nvmlDeviceGetPciInfo_v2 ::
  "nvml_h \<Rightarrow> c_int \<Rightarrow> nvmlDevice_t \<Rightarrow> nvmlPciInfo_t option
   \<Rightarrow> (nvmlReturn_t \<times> nvmlPciInfo_t option) option" where
  "nvmlDeviceGetPciInfo_v2 H g device pci = nvmlDeviceGetPciInfo_v3 H g device pci"

definition nvmlDeviceGetPciInfo ::
  "nvml_h \<Rightarrow> c_int \<Rightarrow> nvmlDevice_t \<Rightarrow> nvmlPciInfo_t option
   \<Rightarrow> (nvmlReturn_t \<times> nvmlPciInfo_t option) option" where
  "nvmlDeviceGetPciInfo H g device pci = nvmlDeviceGetPciInfo_v3 H g device pci"

text \<open>
  \<^verbatim>\<open>nvmlDeviceGetCudaComputeCapability\<close> tests the handle before the output
  pointers and indexes the table with the decoded handle without comparing it
  with the sentinel.
\<close>

definition nvmlDeviceGetCudaComputeCapability ::
  "c_int \<Rightarrow> nvmlDevice_t \<Rightarrow> c_int option \<Rightarrow> c_int option
   \<Rightarrow> (nvmlReturn_t \<times> c_int option \<times> c_int option) option" where
  "nvmlDeviceGetCudaComputeCapability g device major minor =
     (if \<not> nvml_is_initialized g then Some (NVML_ERROR_UNINITIALIZED, major, minor)
      else if \<not> is_valid_device_handle device
        then Some (NVML_ERROR_INVALID_ARGUMENT, major, minor)
      else if major = None \<or> minor = None
        then Some (NVML_ERROR_INVALID_ARGUMENT, major, minor)
      else let idx = device_handle_to_index device in
        case mock_devices_at idx of
          None \<Rightarrow> None
        | Some dev \<Rightarrow>
            Some (NVML_SUCCESS, Some (cuda_compute_capability_major dev),
                  Some (cuda_compute_capability_minor dev)))"

definition nvmlDeviceGetCount :: "c_int \<Rightarrow> c_uint option \<Rightarrow> nvmlReturn_t \<times> c_uint option" where
  "nvmlDeviceGetCount g deviceCount = nvmlDeviceGetCount_v2 g deviceCount"

definition nvmlDeviceGetHandleByIndex ::
  "c_int \<Rightarrow> c_uint \<Rightarrow> nvmlDevice_t option \<Rightarrow> nvmlReturn_t \<times> nvmlDevice_t option" where
  "nvmlDeviceGetHandleByIndex g index device = nvmlDeviceGetHandleByIndex_v2 g index device"

definition nvmlDeviceGetHandleByPciBusId ::
  "nvml_h \<Rightarrow> c_int \<Rightarrow> string option \<Rightarrow> nvmlDevice_t option
   \<Rightarrow> nvmlReturn_t \<times> nvmlDevice_t option" where
  "nvmlDeviceGetHandleByPciBusId H g pciBusId device =
     nvmlDeviceGetHandleByPciBusId_v2 H g pciBusId device"

section \<open>Memory, thermal, power and clock queries (nvml\_memory.c)\<close>

definition nvmlDeviceGetMemoryInfo ::
  "c_int \<Rightarrow> nvmlDevice_t \<Rightarrow> nvmlMemory_t option \<Rightarrow> (nvmlReturn_t \<times> nvmlMemory_t option) option" where
  "nvmlDeviceGetMemoryInfo g device memory =
     (if \<not> nvml_is_initialized g then Some (NVML_ERROR_UNINITIALIZED, memory)
      else if memory = None then Some (NVML_ERROR_INVALID_ARGUMENT, memory)
      else let index = device_handle_to_index device in
        if index = - 1 then Some (NVML_ERROR_INVALID_ARGUMENT, memory)
        else case mock_devices_at index of
          None \<Rightarrow> None
        | Some dev \<Rightarrow>
            Some (NVML_SUCCESS, map_option (\<lambda>m. m
              \<lparr>mem_total := memory_total dev,
                mem_free := memory_free dev,
                mem_used := memory_used dev\<rparr>) memory))"

definition nvmlDeviceGetMemoryInfo_v2 ::
  "nvml_h \<Rightarrow> c_int \<Rightarrow> nvmlDevice_t \<Rightarrow> nvmlMemory_v2_t option
   \<Rightarrow> (nvmlReturn_t \<times> nvmlMemory_v2_t option) option" where
  "nvmlDeviceGetMemoryInfo_v2 H g device memory =
     (if \<not> nvml_is_initialized g then Some (NVML_ERROR_UNINITIALIZED, memory)
      else case memory of
        None \<Rightarrow> Some (NVML_ERROR_INVALID_ARGUMENT, memory)
      | Some m \<Rightarrow>
          if mem2_version m \<noteq> nvmlMemory_v2 H \<and> mem2_version m \<noteq> 0
          then Some (NVML_ERROR_INVALID_ARGUMENT, memory)
          else let index = device_handle_to_index device in
            if index = - 1 then Some (NVML_ERROR_INVALID_ARGUMENT, memory)
            else case mock_devices_at index of
              None \<Rightarrow> None
            | Some dev \<Rightarrow>
                Some (NVML_SUCCESS, Some (m
                  \<lparr>mem2_version := nvmlMemory_v2 H,
                    mem2_total := memory_total dev,
                    mem2_reserved := 0,
                    mem2_free := memory_free dev,
                    mem2_used := memory_used dev\<rparr>)))"

definition nvmlDeviceGetBAR1MemoryInfo ::
  "c_int \<Rightarrow> nvmlDevice_t \<Rightarrow> nvmlBAR1Memory_t option \<Rightarrow> nvmlReturn_t \<times> nvmlBAR1Memory_t option" where
  "nvmlDeviceGetBAR1MemoryInfo g device bar1Memory =
     (if \<not> nvml_is_initialized g then (NVML_ERROR_UNINITIALIZED, bar1Memory)
      else if bar1Memory = None then (NVML_ERROR_INVALID_ARGUMENT, bar1Memory)
      else let index = device_handle_to_index device in
        if index = - 1 then (NVML_ERROR_INVALID_ARGUMENT, bar1Memory)
        else (NVML_SUCCESS, map_option (\<lambda>b. b
          \<lparr>bar1Total := 68719476736,
            bar1Free := 68719476736,
            bar1Used := 0\<rparr>) bar1Memory))"

definition nvmlDeviceGetTemperature ::
  "nvml_h \<Rightarrow> c_int \<Rightarrow> nvmlDevice_t \<Rightarrow> c_uint \<Rightarrow> c_uint option
   \<Rightarrow> (nvmlReturn_t \<times> c_uint option) option" where
  "nvmlDeviceGetTemperature H g device sensorType temp =
     (if \<not> nvml_is_initialized g then Some (NVML_ERROR_UNINITIALIZED, temp)
      else if temp = None then Some (NVML_ERROR_INVALID_ARGUMENT, temp)
      else let index = device_handle_to_index device in
        if index = - 1 then Some (NVML_ERROR_INVALID_ARGUMENT, temp)
        else if sensorType \<noteq> NVML_TEMPERATURE_GPU H then Some (NVML_ERROR_NOT_SUPPORTED, temp)
        else case mock_devices_at index of
          None \<Rightarrow> None
        | Some dev \<Rightarrow> Some (NVML_SUCCESS, Some (temperature dev)))"

definition nvmlDeviceGetPowerUsage ::
  "c_int \<Rightarrow> nvmlDevice_t \<Rightarrow> c_uint option \<Rightarrow> (nvmlReturn_t \<times> c_uint option) option" where
  "nvmlDeviceGetPowerUsage g device powerOut =
     (if \<not> nvml_is_initialized g then Some (NVML_ERROR_UNINITIALIZED, powerOut)
      else if powerOut = None then Some (NVML_ERROR_INVALID_ARGUMENT, powerOut)
      else let index = device_handle_to_index device in
        if index = - 1 then Some (NVML_ERROR_INVALID_ARGUMENT, powerOut)
        else case mock_devices_at index of
          None \<Rightarrow> None
        | Some dev \<Rightarrow> Some (NVML_SUCCESS, Some (power_usage dev)))"

definition nvmlDeviceGetEnforcedPowerLimit ::
  "c_int \<Rightarrow> nvmlDevice_t \<Rightarrow> c_uint option \<Rightarrow> (nvmlReturn_t \<times> c_uint option) option" where
  "nvmlDeviceGetEnforcedPowerLimit g device limit =
     (if \<not> nvml_is_initialized g then Some (NVML_ERROR_UNINITIALIZED, limit)
      else if limit = None then Some (NVML_ERROR_INVALID_ARGUMENT, limit)
      else let index = device_handle_to_index device in
        if index = - 1 then Some (NVML_ERROR_INVALID_ARGUMENT, limit)
        else case mock_devices_at index of
          None \<Rightarrow> None
        | Some dev \<Rightarrow> Some (NVML_SUCCESS, Some (power_limit dev)))"

text \<open>
  \<^verbatim>\<open>1000000ULL * (index + 1)\<close>: the sum is computed in \<^verbatim>\<open>unsigned int\<close>, the
  product in \<^verbatim>\<open>unsigned long long\<close>.
\<close>

definition nvmlDeviceGetTotalEnergyConsumption ::
  "c_int \<Rightarrow> nvmlDevice_t \<Rightarrow> c_ull option \<Rightarrow> nvmlReturn_t \<times> c_ull option" where
  "nvmlDeviceGetTotalEnergyConsumption g device energy =
     (if \<not> nvml_is_initialized g then (NVML_ERROR_UNINITIALIZED, energy)
      else if energy = None then (NVML_ERROR_INVALID_ARGUMENT, energy)
      else let index = device_handle_to_index device in
        if index = - 1 then (NVML_ERROR_INVALID_ARGUMENT, energy)
        else (NVML_SUCCESS, Some (1000000 * ucast (index + 1))))"

definition nvmlDeviceGetClock ::
  "nvml_h \<Rightarrow> c_int \<Rightarrow> nvmlDevice_t \<Rightarrow> c_uint \<Rightarrow> c_uint \<Rightarrow> c_uint option
   \<Rightarrow> (nvmlReturn_t \<times> c_uint option) option" where
  "nvmlDeviceGetClock H g device clockType clockId clockMHz =
     (if \<not> nvml_is_initialized g then Some (NVML_ERROR_UNINITIALIZED, clockMHz)
      else if clockMHz = None then Some (NVML_ERROR_INVALID_ARGUMENT, clockMHz)
      else let index = device_handle_to_index device in
        if index = - 1 then Some (NVML_ERROR_INVALID_ARGUMENT, clockMHz)
        else case mock_devices_at index of
          None \<Rightarrow> None
        | Some dev \<Rightarrow>
            if clockType = NVML_CLOCK_GRAPHICS H then Some (NVML_SUCCESS, Some (clock_graphics dev))
            else if clockType = NVML_CLOCK_SM H then Some (NVML_SUCCESS, Some (clock_sm dev))
            else if clockType = NVML_CLOCK_MEM H then Some (NVML_SUCCESS, Some (clock_memory dev))
            else Some (NVML_ERROR_NOT_SUPPORTED, clockMHz))"

definition nvmlDeviceGetMaxClockInfo ::
  "nvml_h \<Rightarrow> c_int \<Rightarrow> nvmlDevice_t \<Rightarrow> c_uint \<Rightarrow> c_uint option \<Rightarrow> nvmlReturn_t \<times> c_uint option" where
  "nvmlDeviceGetMaxClockInfo H g device type clock =
     (if \<not> nvml_is_initialized g then (NVML_ERROR_UNINITIALIZED, clock)
      else if clock = None then (NVML_ERROR_INVALID_ARGUMENT, clock)
      else let index = device_handle_to_index device in
        if index = - 1 then (NVML_ERROR_INVALID_ARGUMENT, clock)
        else if type = NVML_CLOCK_GRAPHICS H \<or> type = NVML_CLOCK_SM H
          then (NVML_SUCCESS, Some 1410)
        else if type = NVML_CLOCK_MEM H then (NVML_SUCCESS, Some 1593)
        else (NVML_ERROR_NOT_SUPPORTED, clock))"

definition nvmlDeviceGetClockInfo ::
  "nvml_h \<Rightarrow> c_int \<Rightarrow> nvmlDevice_t \<Rightarrow> c_uint \<Rightarrow> c_uint option
   \<Rightarrow> (nvmlReturn_t \<times> c_uint option) option" where
  "nvmlDeviceGetClockInfo H g device type clock =
     nvmlDeviceGetClock H g device type (NVML_CLOCK_ID_CURRENT H) clock"

section \<open>MIG queries (nvml\_mig.c)\<close>

text \<open>
  A pointer that a function neither tests nor writes through (\<^verbatim>\<open>placements\<close>,
  \<^verbatim>\<open>instances\<close>, \<^verbatim>\<open>gpuInstance\<close>, \<^verbatim>\<open>info\<close>, and the process and unit arguments
  below) is the address it holds, 0 for \<^verbatim>\<open>NULL\<close>; so are the instance and
  event-set handles passed by value.
\<close>

definition nvmlDeviceGetMigMode ::
  "c_int \<Rightarrow> nvmlDevice_t \<Rightarrow> c_uint option \<Rightarrow> c_uint option
   \<Rightarrow> nvmlReturn_t \<times> c_uint option \<times> c_uint option" where
  "nvmlDeviceGetMigMode g device currentMode pendingMode =
     (if \<not> nvml_is_initialized g then (NVML_ERROR_UNINITIALIZED, currentMode, pendingMode)
      else if currentMode = None \<or> pendingMode = None
        then (NVML_ERROR_INVALID_ARGUMENT, currentMode, pendingMode)
      else let index = device_handle_to_index device in
        if index = - 1 then (NVML_ERROR_INVALID_ARGUMENT, currentMode, pendingMode)
        else (NVML_ERROR_NOT_SUPPORTED, currentMode, pendingMode))"

definition nvmlDeviceGetMaxMigDeviceCount ::
  "c_int \<Rightarrow> nvmlDevice_t \<Rightarrow> c_uint option \<Rightarrow> nvmlReturn_t \<times> c_uint option" where
  "nvmlDeviceGetMaxMigDeviceCount g device count =
     (if \<not> nvml_is_initialized g then (NVML_ERROR_UNINITIALIZED, count)
      else if count = None then (NVML_ERROR_INVALID_ARGUMENT, count)
      else let index = device_handle_to_index device in
        if index = - 1 then (NVML_ERROR_INVALID_ARGUMENT, count)
        else (NVML_SUCCESS, Some 0))"

definition nvmlDeviceGetGpuInstancePossiblePlacements_v2 ::
  "c_int \<Rightarrow> nvmlDevice_t \<Rightarrow> c_uint \<Rightarrow> uintptr_t \<Rightarrow> c_uint option
   \<Rightarrow> nvmlReturn_t \<times> c_uint option" where
  "nvmlDeviceGetGpuInstancePossiblePlacements_v2 g device profileId placements count =
     (if \<not> nvml_is_initialized g then (NVML_ERROR_UNINITIALIZED, count)
      else if count = None then (NVML_ERROR_INVALID_ARGUMENT, count)
      else let index = device_handle_to_index device in
        if index = - 1 then (NVML_ERROR_INVALID_ARGUMENT, count)
        else (NVML_ERROR_NOT_SUPPORTED, Some 0))"

definition nvmlDeviceGetGpuInstances ::
  "c_int \<Rightarrow> nvmlDevice_t \<Rightarrow> c_uint \<Rightarrow> uintptr_t \<Rightarrow> c_uint option
   \<Rightarrow> nvmlReturn_t \<times> c_uint option" where
  "nvmlDeviceGetGpuInstances g device profileId instances count =
     (if \<not> nvml_is_initialized g then (NVML_ERROR_UNINITIALIZED, count)
      else if count = None then (NVML_ERROR_INVALID_ARGUMENT, count)
      else let index = device_handle_to_index device in
        if index = - 1 then (NVML_ERROR_INVALID_ARGUMENT, count)
        else (NVML_ERROR_NOT_SUPPORTED, Some 0))"

definition nvmlDeviceCreateGpuInstance ::
  "c_int \<Rightarrow> nvmlDevice_t \<Rightarrow> c_uint \<Rightarrow> uintptr_t \<Rightarrow> nvmlReturn_t" where
  "nvmlDeviceCreateGpuInstance g device profileId gpuInstance =
     (if \<not> nvml_is_initialized g then NVML_ERROR_UNINITIALIZED
      else let index = device_handle_to_index device in
        if index = - 1 then NVML_ERROR_INVALID_ARGUMENT
        else NVML_ERROR_NOT_SUPPORTED)"

definition nvmlGpuInstanceDestroy :: "c_int \<Rightarrow> uintptr_t \<Rightarrow> nvmlReturn_t" where
  "nvmlGpuInstanceDestroy g gpuInstance =
     (if \<not> nvml_is_initialized g then NVML_ERROR_UNINITIALIZED
      else NVML_ERROR_NOT_SUPPORTED)"

definition nvmlComputeInstanceGetInfo_v2 :: "c_int \<Rightarrow> uintptr_t \<Rightarrow> uintptr_t \<Rightarrow> nvmlReturn_t" where
  "nvmlComputeInstanceGetInfo_v2 g computeInstance info =
     (if \<not> nvml_is_initialized g then NVML_ERROR_UNINITIALIZED
      else NVML_ERROR_NOT_SUPPORTED)"

definition nvmlDeviceGetGpuInstancePossiblePlacements ::
  "c_int \<Rightarrow> nvmlDevice_t \<Rightarrow> c_uint \<Rightarrow> uintptr_t \<Rightarrow> c_uint option
   \<Rightarrow> nvmlReturn_t \<times> c_uint option" where
  "nvmlDeviceGetGpuInstancePossiblePlacements g device profileId placements count =
     nvmlDeviceGetGpuInstancePossiblePlacements_v2 g device profileId placements count"

definition nvmlComputeInstanceGetInfo :: "c_int \<Rightarrow> uintptr_t \<Rightarrow> uintptr_t \<Rightarrow> nvmlReturn_t" where
  "nvmlComputeInstanceGetInfo g computeInstance info =
     nvmlComputeInstanceGetInfo_v2 g computeInstance info"

section \<open>System queries (nvml\_system.c)\<close>

definition MOCK_DRIVER_VERSION :: string where
  "MOCK_DRIVER_VERSION = ''550.54.15''"

definition MOCK_NVML_VERSION :: string where
  "MOCK_NVML_VERSION = ''12.550.54''"

definition MOCK_CUDA_DRIVER_VERSION :: c_int where
  "MOCK_CUDA_DRIVER_VERSION = 12040"

definition nvmlSystemGetDriverVersion ::
  "c_int \<Rightarrow> string option \<Rightarrow> c_uint \<Rightarrow> nvmlReturn_t \<times> string option" where
  "nvmlSystemGetDriverVersion g version len =
     (if \<not> nvml_is_initialized g then (NVML_ERROR_UNINITIALIZED, version)
      else if version = None \<or> len = 0 then (NVML_ERROR_INVALID_ARGUMENT, version)
      else if unat len < length MOCK_DRIVER_VERSION + 1
        then (NVML_ERROR_INSUFFICIENT_SIZE, version)
      else (NVML_SUCCESS,
        map_option (\<lambda>buf. strncpy_terminated buf MOCK_DRIVER_VERSION (unat len)) version))"

definition nvmlSystemGetNVMLVersion ::
  "c_int \<Rightarrow> string option \<Rightarrow> c_uint \<Rightarrow> nvmlReturn_t \<times> string option" where
  "nvmlSystemGetNVMLVersion g version len =
     (if \<not> nvml_is_initialized g then (NVML_ERROR_UNINITIALIZED, version)
      else if version = None \<or> len = 0 then (NVML_ERROR_INVALID_ARGUMENT, version)
      else if unat len < length MOCK_NVML_VERSION + 1
        then (NVML_ERROR_INSUFFICIENT_SIZE, version)
      else (NVML_SUCCESS,
        map_option (\<lambda>buf. strncpy_terminated buf MOCK_NVML_VERSION (unat len)) version))"

definition nvmlSystemGetCudaDriverVersion ::
  "c_int \<Rightarrow> c_int option \<Rightarrow> nvmlReturn_t \<times> c_int option" where
  "nvmlSystemGetCudaDriverVersion g cudaDriverVersion =
     (if \<not> nvml_is_initialized g then (NVML_ERROR_UNINITIALIZED, cudaDriverVersion)
      else if cudaDriverVersion = None then (NVML_ERROR_INVALID_ARGUMENT, cudaDriverVersion)
      else (NVML_SUCCESS, Some MOCK_CUDA_DRIVER_VERSION))"

definition nvmlSystemGetCudaDriverVersion_v2 ::
  "c_int \<Rightarrow> c_int option \<Rightarrow> nvmlReturn_t \<times> c_int option" where
  "nvmlSystemGetCudaDriverVersion_v2 g cudaDriverVersion =
     nvmlSystemGetCudaDriverVersion g cudaDriverVersion"

text \<open>
  \<^verbatim>\<open>nvmlSystemGetProcessName\<close> asks the operating system:
  \<^verbatim>\<open>readlink("/proc/<pid>/exe", ...)\<close>. The answer is a parameter \<open>proc_exe\<close>,
  which gives for a process id the path that \<^verbatim>\<open>readlink\<close> stores, or \<open>None\<close>
  when it fails; the function proceeds when the stored length is positive.
  \<^verbatim>\<open>strrchr(exe_path, '/')\<close> finds the last slash.
\<close>

definition basename_of :: "string \<Rightarrow> string" where
  "basename_of exe_path =
     (if CHR ''/'' \<in> set exe_path
      then rev (takeWhile (\<lambda>c. c \<noteq> CHR ''/'') (rev exe_path))
      else exe_path)"

definition nvmlSystemGetProcessName ::
  "(c_uint \<Rightarrow> string option) \<Rightarrow> c_int \<Rightarrow> c_uint \<Rightarrow> string option \<Rightarrow> c_uint
   \<Rightarrow> nvmlReturn_t \<times> string option" where
  "nvmlSystemGetProcessName proc_exe g pid nameBuf len =
     (if \<not> nvml_is_initialized g then (NVML_ERROR_UNINITIALIZED, nameBuf)
      else if nameBuf = None \<or> len = 0 then (NVML_ERROR_INVALID_ARGUMENT, nameBuf)
      else case proc_exe pid of
        None \<Rightarrow> (NVML_ERROR_NOT_FOUND, nameBuf)
      | Some exe_path \<Rightarrow>
          if 0 < length exe_path then
            let basename = basename_of exe_path in
            if unat len \<le> length basename then (NVML_ERROR_INSUFFICIENT_SIZE, nameBuf)
            else (NVML_SUCCESS,
              map_option (\<lambda>buf. strncpy_terminated buf basename (unat len)) nameBuf)
          else (NVML_ERROR_NOT_FOUND, nameBuf))"

definition nvmlSystemGetHicVersion ::
  "c_int \<Rightarrow> c_uint option \<Rightarrow> uintptr_t \<Rightarrow> nvmlReturn_t \<times> c_uint option" where
  "nvmlSystemGetHicVersion g hwbcCount hwbcEntries =
     (if \<not> nvml_is_initialized g then (NVML_ERROR_UNINITIALIZED, hwbcCount)
      else if hwbcCount = None then (NVML_ERROR_INVALID_ARGUMENT, hwbcCount)
      else (NVML_SUCCESS, Some 0))"

text \<open>
  A device array argument is the sequence of cells that starts at the pointer;
  the loops \<^verbatim>\<open>for (i = 0; i < 8; i++)\<close> run over the 8 table indices.
\<close>

definition device_indices :: "c_uint list" where
  "device_indices = [0, 1, 2, 3, 4, 5, 6, 7]"

fun gpu_set_loop :: "c_uint list \<Rightarrow> (nat \<Rightarrow> nvmlDevice_t) \<Rightarrow> (nat \<Rightarrow> nvmlDevice_t)" where
  "gpu_set_loop [] deviceArray = deviceArray"
| "gpu_set_loop (i # rest) deviceArray =
     gpu_set_loop rest (deviceArray(unat i := handle_of_index i))"

definition nvmlSystemGetTopologyGpuSet ::
  "c_int \<Rightarrow> c_uint \<Rightarrow> c_uint option \<Rightarrow> (nat \<Rightarrow> nvmlDevice_t) option
   \<Rightarrow> nvmlReturn_t \<times> c_uint option \<times> (nat \<Rightarrow> nvmlDevice_t) option" where
  "nvmlSystemGetTopologyGpuSet g cpuNumber count deviceArray =
     (if \<not> nvml_is_initialized g then (NVML_ERROR_UNINITIALIZED, count, deviceArray)
      else case count of
        None \<Rightarrow> (NVML_ERROR_INVALID_ARGUMENT, count, deviceArray)
      | Some n \<Rightarrow>
          (case deviceArray of
             None \<Rightarrow> (NVML_SUCCESS, Some 8, deviceArray)
           | Some arr \<Rightarrow>
               if n < 8 then (NVML_ERROR_INSUFFICIENT_SIZE, Some 8, deviceArray)
               else (NVML_SUCCESS, Some 8, Some (gpu_set_loop device_indices arr))))"

definition nvmlSystemGetDriverBranch ::
  "c_int \<Rightarrow> string option \<Rightarrow> c_uint \<Rightarrow> nvmlReturn_t \<times> string option" where
  "nvmlSystemGetDriverBranch g branchInfo len =
     (if \<not> nvml_is_initialized g then (NVML_ERROR_UNINITIALIZED, branchInfo)
      else if branchInfo = None \<or> len = 0 then (NVML_ERROR_INVALID_ARGUMENT, branchInfo)
      else let branch = ''r550_00'' in
        if unat len < length branch + 1 then (NVML_ERROR_INSUFFICIENT_SIZE, branchInfo)
        else (NVML_SUCCESS,
          map_option (\<lambda>buf. strncpy_terminated buf branch (unat len)) branchInfo))"

section \<open>Processes, events, NVLink and topology (nvml\_stubs.c)\<close>

definition nvmlDeviceGetComputeRunningProcesses_v3 ::
  "c_int \<Rightarrow> nvmlDevice_t \<Rightarrow> c_uint option \<Rightarrow> uintptr_t \<Rightarrow> nvmlReturn_t \<times> c_uint option" where
  "nvmlDeviceGetComputeRunningProcesses_v3 g device infoCount infos =
     (if \<not> nvml_is_initialized g then (NVML_ERROR_UNINITIALIZED, infoCount)
      else if infoCount = None then (NVML_ERROR_INVALID_ARGUMENT, infoCount)
      else let index = device_handle_to_index device in
        if index = - 1 then (NVML_ERROR_INVALID_ARGUMENT, infoCount)
        else (NVML_SUCCESS, Some 0))"

definition nvmlDeviceGetGraphicsRunningProcesses_v3 ::
  "c_int \<Rightarrow> nvmlDevice_t \<Rightarrow> c_uint option \<Rightarrow> uintptr_t \<Rightarrow> nvmlReturn_t \<times> c_uint option" where
  "nvmlDeviceGetGraphicsRunningProcesses_v3 g device infoCount infos =
     (if \<not> nvml_is_initialized g then (NVML_ERROR_UNINITIALIZED, infoCount)
      else if infoCount = None then (NVML_ERROR_INVALID_ARGUMENT, infoCount)
      else let index = device_handle_to_index device in
        if index = - 1 then (NVML_ERROR_INVALID_ARGUMENT, infoCount)
        else (NVML_SUCCESS, Some 0))"

definition nvmlDeviceGetMPSComputeRunningProcesses_v3 ::
  "c_int \<Rightarrow> nvmlDevice_t \<Rightarrow> c_uint option \<Rightarrow> uintptr_t \<Rightarrow> nvmlReturn_t \<times> c_uint option" where
  "nvmlDeviceGetMPSComputeRunningProcesses_v3 g device infoCount infos =
     (if \<not> nvml_is_initialized g then (NVML_ERROR_UNINITIALIZED, infoCount)
      else if infoCount = None then (NVML_ERROR_INVALID_ARGUMENT, infoCount)
      else let index = device_handle_to_index device in
        if index = - 1 then (NVML_ERROR_INVALID_ARGUMENT, infoCount)
        else (NVML_SUCCESS, Some 0))"

definition nvmlUnitGetCount :: "c_int \<Rightarrow> c_uint option \<Rightarrow> nvmlReturn_t \<times> c_uint option" where
  "nvmlUnitGetCount g unitCount =
     (if \<not> nvml_is_initialized g then (NVML_ERROR_UNINITIALIZED, unitCount)
      else if unitCount = None then (NVML_ERROR_INVALID_ARGUMENT, unitCount)
      else (NVML_SUCCESS, Some 0))"

definition nvmlUnitGetHandleByIndex :: "c_int \<Rightarrow> c_uint \<Rightarrow> uintptr_t \<Rightarrow> nvmlReturn_t" where
  "nvmlUnitGetHandleByIndex g index unitPtr =
     (if \<not> nvml_is_initialized g then NVML_ERROR_UNINITIALIZED
      else NVML_ERROR_INVALID_ARGUMENT)"

definition nvmlDeviceGetSupportedEventTypes ::
  "c_int \<Rightarrow> nvmlDevice_t \<Rightarrow> c_ull option \<Rightarrow> nvmlReturn_t \<times> c_ull option" where
  "nvmlDeviceGetSupportedEventTypes g device eventTypes =
     (if \<not> nvml_is_initialized g then (NVML_ERROR_UNINITIALIZED, eventTypes)
      else if \<not> is_valid_device_handle device then (NVML_ERROR_INVALID_ARGUMENT, eventTypes)
      else if eventTypes = None then (NVML_ERROR_INVALID_ARGUMENT, eventTypes)
      else (NVML_SUCCESS, Some 0))"

definition nvmlDeviceRegisterEvents ::
  "c_int \<Rightarrow> nvmlDevice_t \<Rightarrow> c_ull \<Rightarrow> uintptr_t \<Rightarrow> nvmlReturn_t" where
  "nvmlDeviceRegisterEvents g device eventTypes eventSet =
     (if \<not> nvml_is_initialized g then NVML_ERROR_UNINITIALIZED
      else if \<not> is_valid_device_handle device then NVML_ERROR_INVALID_ARGUMENT
      else if eventTypes \<noteq> 0 then NVML_ERROR_NOT_SUPPORTED
      else NVML_SUCCESS)"

definition nvmlEventSetCreate :: "c_int \<Rightarrow> uintptr_t option \<Rightarrow> nvmlReturn_t \<times> uintptr_t option" where
  "nvmlEventSetCreate g eventSet =
     (if \<not> nvml_is_initialized g then (NVML_ERROR_UNINITIALIZED, eventSet)
      else if eventSet = None then (NVML_ERROR_INVALID_ARGUMENT, eventSet)
      else (NVML_SUCCESS, Some 0xDEADBEEF))"

definition nvmlEventSetWait_v2 ::
  "c_int \<Rightarrow> uintptr_t \<Rightarrow> nvmlEventData_t option \<Rightarrow> c_uint \<Rightarrow> nvmlReturn_t" where
  "nvmlEventSetWait_v2 g eventSet data timeoutms =
     (if \<not> nvml_is_initialized g then NVML_ERROR_UNINITIALIZED
      else if data = None then NVML_ERROR_INVALID_ARGUMENT
      else NVML_ERROR_TIMEOUT)"

definition nvmlEventSetFree :: "c_int \<Rightarrow> uintptr_t \<Rightarrow> nvmlReturn_t" where
  "nvmlEventSetFree g eventSet =
     (if \<not> nvml_is_initialized g then NVML_ERROR_UNINITIALIZED
      else NVML_SUCCESS)"

definition nvmlDeviceSetPersistenceMode ::
  "nvml_h \<Rightarrow> c_int \<Rightarrow> nvmlDevice_t \<Rightarrow> c_uint \<Rightarrow> nvmlReturn_t" where
  "nvmlDeviceSetPersistenceMode H g device mode =
     (if \<not> nvml_is_initialized g then NVML_ERROR_UNINITIALIZED
      else let index = device_handle_to_index device in
        if index = - 1 then NVML_ERROR_INVALID_ARGUMENT
        else if mode \<noteq> NVML_FEATURE_DISABLED H \<and> mode \<noteq> NVML_FEATURE_ENABLED H
          then NVML_ERROR_INVALID_ARGUMENT
        else NVML_SUCCESS)"

definition nvmlDeviceSetComputeMode :: "c_int \<Rightarrow> nvmlDevice_t \<Rightarrow> c_uint \<Rightarrow> nvmlReturn_t" where
  "nvmlDeviceSetComputeMode g device mode =
     (if \<not> nvml_is_initialized g then NVML_ERROR_UNINITIALIZED
      else let index = device_handle_to_index device in
        if index = - 1 then NVML_ERROR_INVALID_ARGUMENT
        else NVML_SUCCESS)"

definition nvmlDeviceGetNvLinkState ::
  "nvml_h \<Rightarrow> c_int \<Rightarrow> nvmlDevice_t \<Rightarrow> c_uint \<Rightarrow> c_uint option \<Rightarrow> nvmlReturn_t \<times> c_uint option" where
  "nvmlDeviceGetNvLinkState H g device link isActive =
     (if \<not> nvml_is_initialized g then (NVML_ERROR_UNINITIALIZED, isActive)
      else if \<not> is_valid_device_handle device then (NVML_ERROR_INVALID_ARGUMENT, isActive)
      else if isActive = None then (NVML_ERROR_INVALID_ARGUMENT, isActive)
      else if 12 \<le> link then (NVML_ERROR_INVALID_ARGUMENT, isActive)
      else (NVML_SUCCESS, Some (NVML_FEATURE_ENABLED H)))"

text \<open>
  \<^verbatim>\<open>(idx + link / 2 + 1) % 8\<close> is computed in \<^verbatim>\<open>unsigned int\<close>. The remote entry
  is read from the table at that index; \<^verbatim>\<open>strncpy\<close> reads its bus id at
  \<^verbatim>\<open>pci_bus_id\<close>.
\<close>

definition nvmlDeviceGetNvLinkRemotePciInfo_v2 ::
  "nvml_h \<Rightarrow> c_int \<Rightarrow> nvmlDevice_t \<Rightarrow> c_uint \<Rightarrow> nvmlPciInfo_t option
   \<Rightarrow> (nvmlReturn_t \<times> nvmlPciInfo_t option) option" where
  "nvmlDeviceGetNvLinkRemotePciInfo_v2 H g device link pci =
     (if \<not> nvml_is_initialized g then Some (NVML_ERROR_UNINITIALIZED, pci)
      else if \<not> is_valid_device_handle device then Some (NVML_ERROR_INVALID_ARGUMENT, pci)
      else if pci = None then Some (NVML_ERROR_INVALID_ARGUMENT, pci)
      else if 12 \<le> link then Some (NVML_ERROR_INVALID_ARGUMENT, pci)
      else let idx = device_handle_to_index device;
               remote_idx = (idx + link div 2 + 1) mod 8 in
        case mock_devices_at remote_idx of
          None \<Rightarrow> None
        | Some remote_device \<Rightarrow>
            Some (NVML_SUCCESS, map_option (\<lambda>p. p
              \<lparr>pciInfo_busIdLegacy :=
                  strncpy_terminated (pciInfo_busIdLegacy p) (pci_bus_id_legacy remote_device)
                    (NVML_DEVICE_PCI_BUS_ID_BUFFER_V2_SIZE H),
                pciInfo_busId :=
                  strncpy_terminated (pciInfo_busId p) (pci_bus_id_read H remote_device)
                    (NVML_DEVICE_PCI_BUS_ID_BUFFER_SIZE H),
                pciInfo_domain := pci_domain remote_device,
                pciInfo_bus := pci_bus remote_device,
                pciInfo_device := pci_device remote_device,
                pciInfo_pciDeviceId := pci_device_id remote_device,
                pciInfo_pciSubSystemId := pci_subsystem_id remote_device\<rparr>) pci))"

definition nvmlDeviceGetNvLinkRemotePciInfo ::
  "nvml_h \<Rightarrow> c_int \<Rightarrow> nvmlDevice_t \<Rightarrow> c_uint \<Rightarrow> nvmlPciInfo_t option
   \<Rightarrow> (nvmlReturn_t \<times> nvmlPciInfo_t option) option" where
  "nvmlDeviceGetNvLinkRemotePciInfo H g device link pci =
     nvmlDeviceGetNvLinkRemotePciInfo_v2 H g device link pci"

definition nvmlDeviceGetTopologyCommonAncestor ::
  "nvml_h \<Rightarrow> c_int \<Rightarrow> nvmlDevice_t \<Rightarrow> nvmlDevice_t \<Rightarrow> c_uint option
   \<Rightarrow> nvmlReturn_t \<times> c_uint option" where
  "nvmlDeviceGetTopologyCommonAncestor H g device1 device2 pathInfo =
     (if \<not> nvml_is_initialized g then (NVML_ERROR_UNINITIALIZED, pathInfo)
      else if pathInfo = None then (NVML_ERROR_INVALID_ARGUMENT, pathInfo)
      else let index1 = device_handle_to_index device1;
               index2 = device_handle_to_index device2 in
        if index1 = - 1 \<or> index2 = - 1 then (NVML_ERROR_INVALID_ARGUMENT, pathInfo)
        else (NVML_SUCCESS, Some (NVML_TOPOLOGY_SYSTEM H)))"

fun nearest_gpus_loop ::
  "c_uint \<Rightarrow> c_uint list \<Rightarrow> c_uint \<Rightarrow> (nat \<Rightarrow> nvmlDevice_t) \<Rightarrow> (nat \<Rightarrow> nvmlDevice_t)" where
  "nearest_gpus_loop index [] j deviceArray = deviceArray"
| "nearest_gpus_loop index (i # rest) j deviceArray =
     (if i \<noteq> index
      then nearest_gpus_loop index rest (j + 1) (deviceArray(unat j := handle_of_index i))
      else nearest_gpus_loop index rest j deviceArray)"

definition nvmlDeviceGetTopologyNearestGpus ::
  "c_int \<Rightarrow> nvmlDevice_t \<Rightarrow> c_uint \<Rightarrow> c_uint option \<Rightarrow> (nat \<Rightarrow> nvmlDevice_t) option
   \<Rightarrow> nvmlReturn_t \<times> c_uint option \<times> (nat \<Rightarrow> nvmlDevice_t) option" where
  "nvmlDeviceGetTopologyNearestGpus g device level count deviceArray =
     (if \<not> nvml_is_initialized g then (NVML_ERROR_UNINITIALIZED, count, deviceArray)
      else case count of
        None \<Rightarrow> (NVML_ERROR_INVALID_ARGUMENT, count, deviceArray)
      | Some n \<Rightarrow>
          let index = device_handle_to_index device in
          if index = - 1 then (NVML_ERROR_INVALID_ARGUMENT, count, deviceArray)
          else (case deviceArray of
             None \<Rightarrow> (NVML_SUCCESS, Some 7, deviceArray)
           | Some arr \<Rightarrow>
               if n < 7 then (NVML_ERROR_INSUFFICIENT_SIZE, Some 7, deviceArray)
               else (NVML_SUCCESS, Some 7,
                     Some (nearest_gpus_loop index device_indices 0 arr))))"

definition nvmlDeviceGetP2PStatus ::
  "nvml_h \<Rightarrow> c_int \<Rightarrow> nvmlDevice_t \<Rightarrow> nvmlDevice_t \<Rightarrow> c_uint \<Rightarrow> c_uint option
   \<Rightarrow> nvmlReturn_t \<times> c_uint option" where
  "nvmlDeviceGetP2PStatus H g device1 device2 p2pIndex p2pStatus =
     (if \<not> nvml_is_initialized g then (NVML_ERROR_UNINITIALIZED, p2pStatus)
      else if p2pStatus = None then (NVML_ERROR_INVALID_ARGUMENT, p2pStatus)
      else let index1 = device_handle_to_index device1;
               index2 = device_handle_to_index device2 in
        if index1 = - 1 \<or> index2 = - 1 then (NVML_ERROR_INVALID_ARGUMENT, p2pStatus)
        else (NVML_SUCCESS, Some (NVML_P2P_STATUS_OK H)))"

definition nvmlDeviceGetComputeRunningProcesses ::
  "c_int \<Rightarrow> nvmlDevice_t \<Rightarrow> c_uint option \<Rightarrow> uintptr_t \<Rightarrow> nvmlReturn_t \<times> c_uint option" where
  "nvmlDeviceGetComputeRunningProcesses g device infoCount infos =
     (if \<not> nvml_is_initialized g then (NVML_ERROR_UNINITIALIZED, infoCount)
      else if infoCount = None then (NVML_ERROR_INVALID_ARGUMENT, infoCount)
      else let index = device_handle_to_index device in
        if index = - 1 then (NVML_ERROR_INVALID_ARGUMENT, infoCount)
        else (NVML_SUCCESS, Some 0))"

definition nvmlDeviceGetComputeRunningProcesses_v2 ::
  "c_int \<Rightarrow> nvmlDevice_t \<Rightarrow> c_uint option \<Rightarrow> uintptr_t \<Rightarrow> nvmlReturn_t \<times> c_uint option" where
  "nvmlDeviceGetComputeRunningProcesses_v2 g device infoCount infos =
     (if \<not> nvml_is_initialized g then (NVML_ERROR_UNINITIALIZED, infoCount)
      else if infoCount = None then (NVML_ERROR_INVALID_ARGUMENT, infoCount)
      else let index = device_handle_to_index device in
        if index = - 1 then (NVML_ERROR_INVALID_ARGUMENT, infoCount)
        else (NVML_SUCCESS, Some 0))"

definition nvmlEventSetWait ::
  "c_int \<Rightarrow> uintptr_t \<Rightarrow> nvmlEventData_t option \<Rightarrow> c_uint \<Rightarrow> nvmlReturn_t" where
  "nvmlEventSetWait g eventSet data timeoutms = nvmlEventSetWait_v2 g eventSet data timeoutms"

section \<open>The exposed operations as one type\<close>

text \<open>
  One constructor for every function of the five source files that returns an
  \<^verbatim>\<open>nvmlReturn_t\<close> and consults the session, with the function's arguments,
  file by file. \<open>nvml_call_return\<close> is the return code of a call; it is \<open>None\<close>
  when the function reads the fixture table outside its 8 entries. \<open>E\<close> is the
  operating system's answer to \<^verbatim>\<open>readlink\<close> (see \<open>nvmlSystemGetProcessName\<close>).
\<close>

datatype device_call =
    Call_DeviceGetCount_v2 "c_uint option"
  | Call_DeviceGetHandleByIndex_v2 c_uint "nvmlDevice_t option"
  | Call_DeviceGetHandleByUUID "string option" "nvmlDevice_t option"
  | Call_DeviceGetHandleByPciBusId_v2 "string option" "nvmlDevice_t option"
  | Call_DeviceGetName nvmlDevice_t "string option" c_uint
  | Call_DeviceGetUUID nvmlDevice_t "string option" c_uint
  | Call_DeviceGetPciInfo_v3 nvmlDevice_t "nvmlPciInfo_t option"
  | Call_DeviceGetMinorNumber nvmlDevice_t "c_uint option"
  | Call_DeviceGetIndex nvmlDevice_t "c_uint option"
  | Call_DeviceGetSerial nvmlDevice_t "string option" c_uint
  | Call_DeviceGetBrand nvmlDevice_t "c_uint option"
  | Call_DeviceGetPersistenceMode nvmlDevice_t "c_uint option"
  | Call_DeviceGetDisplayMode nvmlDevice_t "c_uint option"
  | Call_DeviceGetDisplayActive nvmlDevice_t "c_uint option"
  | Call_DeviceGetBoardPartNumber nvmlDevice_t "string option" c_uint
  | Call_DeviceGetAttributes_v2 nvmlDevice_t "nvmlDeviceAttributes_t option"
  | Call_DeviceGetPciInfo_v2 nvmlDevice_t "nvmlPciInfo_t option"
  | Call_DeviceGetPciInfo nvmlDevice_t "nvmlPciInfo_t option"
  | Call_DeviceGetCudaComputeCapability nvmlDevice_t "c_int option" "c_int option"
  | Call_DeviceGetCount "c_uint option"
  | Call_DeviceGetHandleByIndex c_uint "nvmlDevice_t option"
  | Call_DeviceGetHandleByPciBusId "string option" "nvmlDevice_t option"

primrec device_call_return ::
  "nvml_h \<Rightarrow> c_int \<Rightarrow> device_call \<Rightarrow> nvmlReturn_t option" where
  "device_call_return H g (Call_DeviceGetCount_v2 p) = Some (fst (nvmlDeviceGetCount_v2 g p))"
| "device_call_return H g (Call_DeviceGetHandleByIndex_v2 i p) =
     Some (fst (nvmlDeviceGetHandleByIndex_v2 g i p))"
| "device_call_return H g (Call_DeviceGetHandleByUUID s p) =
     Some (fst (nvmlDeviceGetHandleByUUID g s p))"
| "device_call_return H g (Call_DeviceGetHandleByPciBusId_v2 s p) =
     Some (fst (nvmlDeviceGetHandleByPciBusId_v2 H g s p))"
| "device_call_return H g (Call_DeviceGetName d b n) = map_option fst (nvmlDeviceGetName g d b n)"
| "device_call_return H g (Call_DeviceGetUUID d b n) = map_option fst (nvmlDeviceGetUUID g d b n)"
| "device_call_return H g (Call_DeviceGetPciInfo_v3 d p) =
     map_option fst (nvmlDeviceGetPciInfo_v3 H g d p)"
| "device_call_return H g (Call_DeviceGetMinorNumber d p) =
     map_option fst (nvmlDeviceGetMinorNumber g d p)"
| "device_call_return H g (Call_DeviceGetIndex d p) = Some (fst (nvmlDeviceGetIndex g d p))"
| "device_call_return H g (Call_DeviceGetSerial d b n) =
     map_option fst (nvmlDeviceGetSerial g d b n)"
| "device_call_return H g (Call_DeviceGetBrand d p) = map_option fst (nvmlDeviceGetBrand g d p)"
| "device_call_return H g (Call_DeviceGetPersistenceMode d p) =
     map_option fst (nvmlDeviceGetPersistenceMode g d p)"
| "device_call_return H g (Call_DeviceGetDisplayMode d p) =
     map_option fst (nvmlDeviceGetDisplayMode g d p)"
| "device_call_return H g (Call_DeviceGetDisplayActive d p) =
     map_option fst (nvmlDeviceGetDisplayActive g d p)"
| "device_call_return H g (Call_DeviceGetBoardPartNumber d b n) =
     Some (fst (nvmlDeviceGetBoardPartNumber g d b n))"
| "device_call_return H g (Call_DeviceGetAttributes_v2 d p) =
     Some (fst (nvmlDeviceGetAttributes_v2 g d p))"
| "device_call_return H g (Call_DeviceGetPciInfo_v2 d p) =
     map_option fst (nvmlDeviceGetPciInfo_v2 H g d p)"
| "device_call_return H g (Call_DeviceGetPciInfo d p) =
     map_option fst (nvmlDeviceGetPciInfo H g d p)"
| "device_call_return H g (Call_DeviceGetCudaComputeCapability d p q) =
     map_option fst (nvmlDeviceGetCudaComputeCapability g d p q)"
| "device_call_return H g (Call_DeviceGetCount p) = Some (fst (nvmlDeviceGetCount g p))"
| "device_call_return H g (Call_DeviceGetHandleByIndex i p) =
     Some (fst (nvmlDeviceGetHandleByIndex g i p))"
| "device_call_return H g (Call_DeviceGetHandleByPciBusId s p) =
     Some (fst (nvmlDeviceGetHandleByPciBusId H g s p))"

datatype memory_call =
    Call_DeviceGetMemoryInfo nvmlDevice_t "nvmlMemory_t option"
  | Call_DeviceGetMemoryInfo_v2 nvmlDevice_t "nvmlMemory_v2_t option"
  | Call_DeviceGetBAR1MemoryInfo nvmlDevice_t "nvmlBAR1Memory_t option"
  | Call_DeviceGetTemperature nvmlDevice_t c_uint "c_uint option"
  | Call_DeviceGetPowerUsage nvmlDevice_t "c_uint option"
  | Call_DeviceGetEnforcedPowerLimit nvmlDevice_t "c_uint option"
  | Call_DeviceGetTotalEnergyConsumption nvmlDevice_t "c_ull option"
  | Call_DeviceGetClock nvmlDevice_t c_uint c_uint "c_uint option"
  | Call_DeviceGetMaxClockInfo nvmlDevice_t c_uint "c_uint option"
  | Call_DeviceGetClockInfo nvmlDevice_t c_uint "c_uint option"

primrec memory_call_return ::
  "nvml_h \<Rightarrow> c_int \<Rightarrow> memory_call \<Rightarrow> nvmlReturn_t option" where
  "memory_call_return H g (Call_DeviceGetMemoryInfo d p) =
     map_option fst (nvmlDeviceGetMemoryInfo g d p)"
| "memory_call_return H g (Call_DeviceGetMemoryInfo_v2 d p) =
     map_option fst (nvmlDeviceGetMemoryInfo_v2 H g d p)"
| "memory_call_return H g (Call_DeviceGetBAR1MemoryInfo d p) =
     Some (fst (nvmlDeviceGetBAR1MemoryInfo g d p))"
| "memory_call_return H g (Call_DeviceGetTemperature d t p) =
     map_option fst (nvmlDeviceGetTemperature H g d t p)"
| "memory_call_return H g (Call_DeviceGetPowerUsage d p) =
     map_option fst (nvmlDeviceGetPowerUsage g d p)"
| "memory_call_return H g (Call_DeviceGetEnforcedPowerLimit d p) =
     map_option fst (nvmlDeviceGetEnforcedPowerLimit g d p)"
| "memory_call_return H g (Call_DeviceGetTotalEnergyConsumption d p) =
     Some (fst (nvmlDeviceGetTotalEnergyConsumption g d p))"
| "memory_call_return H g (Call_DeviceGetClock d t i p) =
     map_option fst (nvmlDeviceGetClock H g d t i p)"
| "memory_call_return H g (Call_DeviceGetMaxClockInfo d t p) =
     Some (fst (nvmlDeviceGetMaxClockInfo H g d t p))"
| "memory_call_return H g (Call_DeviceGetClockInfo d t p) =
     map_option fst (nvmlDeviceGetClockInfo H g d t p)"

datatype mig_call =
    Call_DeviceGetMigMode nvmlDevice_t "c_uint option" "c_uint option"
  | Call_DeviceGetMaxMigDeviceCount nvmlDevice_t "c_uint option"
  | Call_DeviceGetGpuInstancePossiblePlacements_v2 nvmlDevice_t c_uint uintptr_t "c_uint option"
  | Call_DeviceGetGpuInstances nvmlDevice_t c_uint uintptr_t "c_uint option"
  | Call_DeviceCreateGpuInstance nvmlDevice_t c_uint uintptr_t
  | Call_GpuInstanceDestroy uintptr_t
  | Call_ComputeInstanceGetInfo_v2 uintptr_t uintptr_t
  | Call_DeviceGetGpuInstancePossiblePlacements nvmlDevice_t c_uint uintptr_t "c_uint option"
  | Call_ComputeInstanceGetInfo uintptr_t uintptr_t

primrec mig_call_return ::
  "c_int \<Rightarrow> mig_call \<Rightarrow> nvmlReturn_t option" where
  "mig_call_return g (Call_DeviceGetMigMode d p q) = Some (fst (nvmlDeviceGetMigMode g d p q))"
| "mig_call_return g (Call_DeviceGetMaxMigDeviceCount d p) =
     Some (fst (nvmlDeviceGetMaxMigDeviceCount g d p))"
| "mig_call_return g (Call_DeviceGetGpuInstancePossiblePlacements_v2 d i a p) =
     Some (fst (nvmlDeviceGetGpuInstancePossiblePlacements_v2 g d i a p))"
| "mig_call_return g (Call_DeviceGetGpuInstances d i a p) =
     Some (fst (nvmlDeviceGetGpuInstances g d i a p))"
| "mig_call_return g (Call_DeviceCreateGpuInstance d i a) =
     Some (nvmlDeviceCreateGpuInstance g d i a)"
| "mig_call_return g (Call_GpuInstanceDestroy a) = Some (nvmlGpuInstanceDestroy g a)"
| "mig_call_return g (Call_ComputeInstanceGetInfo_v2 a b) =
     Some (nvmlComputeInstanceGetInfo_v2 g a b)"
| "mig_call_return g (Call_DeviceGetGpuInstancePossiblePlacements d i a p) =
     Some (fst (nvmlDeviceGetGpuInstancePossiblePlacements g d i a p))"
| "mig_call_return g (Call_ComputeInstanceGetInfo a b) =
     Some (nvmlComputeInstanceGetInfo g a b)"

datatype system_call =
    Call_SystemGetDriverVersion "string option" c_uint
  | Call_SystemGetNVMLVersion "string option" c_uint
  | Call_SystemGetCudaDriverVersion "c_int option"
  | Call_SystemGetCudaDriverVersion_v2 "c_int option"
  | Call_SystemGetProcessName c_uint "string option" c_uint
  | Call_SystemGetHicVersion "c_uint option" uintptr_t
  | Call_SystemGetTopologyGpuSet c_uint "c_uint option" "(nat \<Rightarrow> nvmlDevice_t) option"
  | Call_SystemGetDriverBranch "string option" c_uint

primrec system_call_return ::
  "(c_uint \<Rightarrow> string option) \<Rightarrow> c_int \<Rightarrow> system_call \<Rightarrow> nvmlReturn_t option" where
  "system_call_return E g (Call_SystemGetDriverVersion b n) =
     Some (fst (nvmlSystemGetDriverVersion g b n))"
| "system_call_return E g (Call_SystemGetNVMLVersion b n) =
     Some (fst (nvmlSystemGetNVMLVersion g b n))"
| "system_call_return E g (Call_SystemGetCudaDriverVersion p) =
     Some (fst (nvmlSystemGetCudaDriverVersion g p))"
| "system_call_return E g (Call_SystemGetCudaDriverVersion_v2 p) =
     Some (fst (nvmlSystemGetCudaDriverVersion_v2 g p))"
| "system_call_return E g (Call_SystemGetProcessName i b n) =
     Some (fst (nvmlSystemGetProcessName E g i b n))"
| "system_call_return E g (Call_SystemGetHicVersion p a) =
     Some (fst (nvmlSystemGetHicVersion g p a))"
| "system_call_return E g (Call_SystemGetTopologyGpuSet i p a) =
     Some (fst (nvmlSystemGetTopologyGpuSet g i p a))"
| "system_call_return E g (Call_SystemGetDriverBranch b n) =
     Some (fst (nvmlSystemGetDriverBranch g b n))"

datatype stubs_call =
    Call_DeviceGetComputeRunningProcesses_v3 nvmlDevice_t "c_uint option" uintptr_t
  | Call_DeviceGetGraphicsRunningProcesses_v3 nvmlDevice_t "c_uint option" uintptr_t
  | Call_DeviceGetMPSComputeRunningProcesses_v3 nvmlDevice_t "c_uint option" uintptr_t
  | Call_UnitGetCount "c_uint option"
  | Call_UnitGetHandleByIndex c_uint uintptr_t
  | Call_DeviceGetSupportedEventTypes nvmlDevice_t "c_ull option"
  | Call_DeviceRegisterEvents nvmlDevice_t c_ull uintptr_t
  | Call_EventSetCreate "uintptr_t option"
  | Call_EventSetWait_v2 uintptr_t "nvmlEventData_t option" c_uint
  | Call_EventSetFree uintptr_t
  | Call_DeviceSetPersistenceMode nvmlDevice_t c_uint
  | Call_DeviceSetComputeMode nvmlDevice_t c_uint
  | Call_DeviceGetNvLinkState nvmlDevice_t c_uint "c_uint option"
  | Call_DeviceGetNvLinkRemotePciInfo_v2 nvmlDevice_t c_uint "nvmlPciInfo_t option"
  | Call_DeviceGetNvLinkRemotePciInfo nvmlDevice_t c_uint "nvmlPciInfo_t option"
  | Call_DeviceGetTopologyCommonAncestor nvmlDevice_t nvmlDevice_t "c_uint option"
  | Call_DeviceGetTopologyNearestGpus nvmlDevice_t c_uint "c_uint option"
      "(nat \<Rightarrow> nvmlDevice_t) option"
  | Call_DeviceGetP2PStatus nvmlDevice_t nvmlDevice_t c_uint "c_uint option"
  | Call_DeviceGetComputeRunningProcesses nvmlDevice_t "c_uint option" uintptr_t
  | Call_DeviceGetComputeRunningProcesses_v2 nvmlDevice_t "c_uint option" uintptr_t
  | Call_EventSetWait uintptr_t "nvmlEventData_t option" c_uint

primrec stubs_call_return ::
  "nvml_h \<Rightarrow> c_int \<Rightarrow> stubs_call \<Rightarrow> nvmlReturn_t option" where
  "stubs_call_return H g (Call_DeviceGetComputeRunningProcesses_v3 d p a) =
     Some (fst (nvmlDeviceGetComputeRunningProcesses_v3 g d p a))"
| "stubs_call_return H g (Call_DeviceGetGraphicsRunningProcesses_v3 d p a) =
     Some (fst (nvmlDeviceGetGraphicsRunningProcesses_v3 g d p a))"
| "stubs_call_return H g (Call_DeviceGetMPSComputeRunningProcesses_v3 d p a) =
     Some (fst (nvmlDeviceGetMPSComputeRunningProcesses_v3 g d p a))"
| "stubs_call_return H g (Call_UnitGetCount p) = Some (fst (nvmlUnitGetCount g p))"
| "stubs_call_return H g (Call_UnitGetHandleByIndex i a) = Some (nvmlUnitGetHandleByIndex g i a)"
| "stubs_call_return H g (Call_DeviceGetSupportedEventTypes d p) =
     Some (fst (nvmlDeviceGetSupportedEventTypes g d p))"
| "stubs_call_return H g (Call_DeviceRegisterEvents d t a) =
     Some (nvmlDeviceRegisterEvents g d t a)"
| "stubs_call_return H g (Call_EventSetCreate p) = Some (fst (nvmlEventSetCreate g p))"
| "stubs_call_return H g (Call_EventSetWait_v2 a p t) = Some (nvmlEventSetWait_v2 g a p t)"
| "stubs_call_return H g (Call_EventSetFree a) = Some (nvmlEventSetFree g a)"
| "stubs_call_return H g (Call_DeviceSetPersistenceMode d m) =
     Some (nvmlDeviceSetPersistenceMode H g d m)"
| "stubs_call_return H g (Call_DeviceSetComputeMode d m) = Some (nvmlDeviceSetComputeMode g d m)"
| "stubs_call_return H g (Call_DeviceGetNvLinkState d l p) =
     Some (fst (nvmlDeviceGetNvLinkState H g d l p))"
| "stubs_call_return H g (Call_DeviceGetNvLinkRemotePciInfo_v2 d l p) =
     map_option fst (nvmlDeviceGetNvLinkRemotePciInfo_v2 H g d l p)"
| "stubs_call_return H g (Call_DeviceGetNvLinkRemotePciInfo d l p) =
     map_option fst (nvmlDeviceGetNvLinkRemotePciInfo H g d l p)"
| "stubs_call_return H g (Call_DeviceGetTopologyCommonAncestor d e p) =
     Some (fst (nvmlDeviceGetTopologyCommonAncestor H g d e p))"
| "stubs_call_return H g (Call_DeviceGetTopologyNearestGpus d l p a) =
     Some (fst (nvmlDeviceGetTopologyNearestGpus g d l p a))"
| "stubs_call_return H g (Call_DeviceGetP2PStatus d e i p) =
     Some (fst (nvmlDeviceGetP2PStatus H g d e i p))"
| "stubs_call_return H g (Call_DeviceGetComputeRunningProcesses d p a) =
     Some (fst (nvmlDeviceGetComputeRunningProcesses g d p a))"
| "stubs_call_return H g (Call_DeviceGetComputeRunningProcesses_v2 d p a) =
     Some (fst (nvmlDeviceGetComputeRunningProcesses_v2 g d p a))"
| "stubs_call_return H g (Call_EventSetWait a p t) = Some (nvmlEventSetWait g a p t)"

datatype nvml_call =
    Device_call device_call
  | Memory_call memory_call
  | Mig_call mig_call
  | System_call system_call
  | Stubs_call stubs_call

primrec nvml_call_return ::
  "nvml_h \<Rightarrow> (c_uint \<Rightarrow> string option) \<Rightarrow> c_int \<Rightarrow> nvml_call \<Rightarrow> nvmlReturn_t option" where
  "nvml_call_return H E g (Device_call c) = device_call_return H g c"
| "nvml_call_return H E g (Memory_call c) = memory_call_return H g c"
| "nvml_call_return H E g (Mig_call c) = mig_call_return g c"
| "nvml_call_return H E g (System_call c) = system_call_return E g c"
| "nvml_call_return H E g (Stubs_call c) = stubs_call_return H g c"

text \<open>The device handles among the arguments of a call.\<close>

primrec device_call_handles :: "device_call \<Rightarrow> nvmlDevice_t list" where
  "device_call_handles (Call_DeviceGetCount_v2 x1) = []"
| "device_call_handles (Call_DeviceGetHandleByIndex_v2 x1 x2) = []"
| "device_call_handles (Call_DeviceGetHandleByUUID x1 x2) = []"
| "device_call_handles (Call_DeviceGetHandleByPciBusId_v2 x1 x2) = []"
| "device_call_handles (Call_DeviceGetName x1 x2 x3) = [x1]"
| "device_call_handles (Call_DeviceGetUUID x1 x2 x3) = [x1]"
| "device_call_handles (Call_DeviceGetPciInfo_v3 x1 x2) = [x1]"
| "device_call_handles (Call_DeviceGetMinorNumber x1 x2) = [x1]"
| "device_call_handles (Call_DeviceGetIndex x1 x2) = [x1]"
| "device_call_handles (Call_DeviceGetSerial x1 x2 x3) = [x1]"
| "device_call_handles (Call_DeviceGetBrand x1 x2) = [x1]"
| "device_call_handles (Call_DeviceGetPersistenceMode x1 x2) = [x1]"
| "device_call_handles (Call_DeviceGetDisplayMode x1 x2) = [x1]"
| "device_call_handles (Call_DeviceGetDisplayActive x1 x2) = [x1]"
| "device_call_handles (Call_DeviceGetBoardPartNumber x1 x2 x3) = [x1]"
| "device_call_handles (Call_DeviceGetAttributes_v2 x1 x2) = [x1]"
| "device_call_handles (Call_DeviceGetPciInfo_v2 x1 x2) = [x1]"
| "device_call_handles (Call_DeviceGetPciInfo x1 x2) = [x1]"
| "device_call_handles (Call_DeviceGetCudaComputeCapability x1 x2 x3) = [x1]"
| "device_call_handles (Call_DeviceGetCount x1) = []"
| "device_call_handles (Call_DeviceGetHandleByIndex x1 x2) = []"
| "device_call_handles (Call_DeviceGetHandleByPciBusId x1 x2) = []"

primrec memory_call_handles :: "memory_call \<Rightarrow> nvmlDevice_t list" where
  "memory_call_handles (Call_DeviceGetMemoryInfo x1 x2) = [x1]"
| "memory_call_handles (Call_DeviceGetMemoryInfo_v2 x1 x2) = [x1]"
| "memory_call_handles (Call_DeviceGetBAR1MemoryInfo x1 x2) = [x1]"
| "memory_call_handles (Call_DeviceGetTemperature x1 x2 x3) = [x1]"
| "memory_call_handles (Call_DeviceGetPowerUsage x1 x2) = [x1]"
| "memory_call_handles (Call_DeviceGetEnforcedPowerLimit x1 x2) = [x1]"
| "memory_call_handles (Call_DeviceGetTotalEnergyConsumption x1 x2) = [x1]"
| "memory_call_handles (Call_DeviceGetClock x1 x2 x3 x4) = [x1]"
| "memory_call_handles (Call_DeviceGetMaxClockInfo x1 x2 x3) = [x1]"
| "memory_call_handles (Call_DeviceGetClockInfo x1 x2 x3) = [x1]"

primrec mig_call_handles :: "mig_call \<Rightarrow> nvmlDevice_t list" where
  "mig_call_handles (Call_DeviceGetMigMode x1 x2 x3) = [x1]"
| "mig_call_handles (Call_DeviceGetMaxMigDeviceCount x1 x2) = [x1]"
| "mig_call_handles (Call_DeviceGetGpuInstancePossiblePlacements_v2 x1 x2 x3 x4) = [x1]"
| "mig_call_handles (Call_DeviceGetGpuInstances x1 x2 x3 x4) = [x1]"
| "mig_call_handles (Call_DeviceCreateGpuInstance x1 x2 x3) = [x1]"
| "mig_call_handles (Call_GpuInstanceDestroy x1) = []"
| "mig_call_handles (Call_ComputeInstanceGetInfo_v2 x1 x2) = []"
| "mig_call_handles (Call_DeviceGetGpuInstancePossiblePlacements x1 x2 x3 x4) = [x1]"
| "mig_call_handles (Call_ComputeInstanceGetInfo x1 x2) = []"

primrec system_call_handles :: "system_call \<Rightarrow> nvmlDevice_t list" where
  "system_call_handles (Call_SystemGetDriverVersion x1 x2) = []"
| "system_call_handles (Call_SystemGetNVMLVersion x1 x2) = []"
| "system_call_handles (Call_SystemGetCudaDriverVersion x1) = []"
| "system_call_handles (Call_SystemGetCudaDriverVersion_v2 x1) = []"
| "system_call_handles (Call_SystemGetProcessName x1 x2 x3) = []"
| "system_call_handles (Call_SystemGetHicVersion x1 x2) = []"
| "system_call_handles (Call_SystemGetTopologyGpuSet x1 x2 x3) = []"
| "system_call_handles (Call_SystemGetDriverBranch x1 x2) = []"

primrec stubs_call_handles :: "stubs_call \<Rightarrow> nvmlDevice_t list" where
  "stubs_call_handles (Call_DeviceGetComputeRunningProcesses_v3 x1 x2 x3) = [x1]"
| "stubs_call_handles (Call_DeviceGetGraphicsRunningProcesses_v3 x1 x2 x3) = [x1]"
| "stubs_call_handles (Call_DeviceGetMPSComputeRunningProcesses_v3 x1 x2 x3) = [x1]"
| "stubs_call_handles (Call_UnitGetCount x1) = []"
| "stubs_call_handles (Call_UnitGetHandleByIndex x1 x2) = []"
| "stubs_call_handles (Call_DeviceGetSupportedEventTypes x1 x2) = [x1]"
| "stubs_call_handles (Call_DeviceRegisterEvents x1 x2 x3) = [x1]"
| "stubs_call_handles (Call_EventSetCreate x1) = []"
| "stubs_call_handles (Call_EventSetWait_v2 x1 x2 x3) = []"
| "stubs_call_handles (Call_EventSetFree x1) = []"
| "stubs_call_handles (Call_DeviceSetPersistenceMode x1 x2) = [x1]"
| "stubs_call_handles (Call_DeviceSetComputeMode x1 x2) = [x1]"
| "stubs_call_handles (Call_DeviceGetNvLinkState x1 x2 x3) = [x1]"
| "stubs_call_handles (Call_DeviceGetNvLinkRemotePciInfo_v2 x1 x2 x3) = [x1]"
| "stubs_call_handles (Call_DeviceGetNvLinkRemotePciInfo x1 x2 x3) = [x1]"
| "stubs_call_handles (Call_DeviceGetTopologyCommonAncestor x1 x2 x3) = [x1, x2]"
| "stubs_call_handles (Call_DeviceGetTopologyNearestGpus x1 x2 x3 x4) = [x1]"
| "stubs_call_handles (Call_DeviceGetP2PStatus x1 x2 x3 x4) = [x1, x2]"
| "stubs_call_handles (Call_DeviceGetComputeRunningProcesses x1 x2 x3) = [x1]"
| "stubs_call_handles (Call_DeviceGetComputeRunningProcesses_v2 x1 x2 x3) = [x1]"
| "stubs_call_handles (Call_EventSetWait x1 x2 x3) = []"

primrec nvml_call_handles :: "nvml_call \<Rightarrow> nvmlDevice_t list" where
  "nvml_call_handles (Device_call c) = device_call_handles c"
| "nvml_call_handles (Memory_call c) = memory_call_handles c"
| "nvml_call_handles (Mig_call c) = mig_call_handles c"
| "nvml_call_handles (System_call c) = system_call_handles c"
| "nvml_call_handles (Stubs_call c) = stubs_call_handles c"

section \<open>The buffer convention of the string queries\<close>

text \<open>
  The buffer convention for a string query with value \<open>v\<close>, called with a
  buffer that holds \<open>b\<close> and capacity \<open>n\<close>, in terms of what it returns:
  capacity 0 is an invalid argument; a positive capacity below the length of
  the value plus the terminator is an insufficient size; in both cases the
  buffer is as before. With exactly that capacity the call succeeds and the
  buffer holds the value and its terminator, the bytes behind them as before.
\<close>

definition string_buffer_contract ::
  "string \<Rightarrow> string \<Rightarrow> c_uint \<Rightarrow> nvmlReturn_t \<times> string option \<Rightarrow> bool" where
  "string_buffer_contract v b n r =
     ((n = 0 \<longrightarrow> r = (NVML_ERROR_INVALID_ARGUMENT, Some b))
      \<and> (0 < unat n \<and> unat n < length v + 1 \<longrightarrow> r = (NVML_ERROR_INSUFFICIENT_SIZE, Some b))
      \<and> (unat n = length v + 1 \<longrightarrow>
           r = (NVML_SUCCESS, Some (v @ NUL # drop (length v + 1) b))))"

section \<open>Properties of the session state machine\<close>

lemma outstanding_snoc: "outstanding (cs @ [c]) = outstanding_step (outstanding cs) c"
  by (simp add: outstanding_def)

lemma lifecycle_run_snoc:
  "lifecycle_run (cs @ [c]) g = lifecycle_step (lifecycle_run cs g) c"
  by (simp add: lifecycle_run_def)

lemma outstanding_le_length: "outstanding cs \<le> length cs"
proof (induction cs rule: rev_induct)
  case Nil
  show ?case by (simp add: outstanding_def)
next
  case (snoc c cs)
  then show ?case by (cases c) (simp_all add: outstanding_snoc)
qed

lemma sint_of_nat_small: "n < 2 ^ 31 \<Longrightarrow> sint (word_of_nat n :: 32 word) = int n"
  by (simp add: signed_of_nat signed_take_bit_int_eq_self)

text \<open>One call keeps the counter equal to the number of outstanding inits.\<close>

lemma lifecycle_step_counter:
  assumes "n < 2 ^ 31" and "outstanding_step n c < 2 ^ 31"
  shows "lifecycle_step (word_of_nat n) c = word_of_nat (outstanding_step n c)"
proof (cases c)
  case Init
  then show ?thesis by (simp add: nvmlInit_v2_def)
next
  case Shutdown
  show ?thesis
  proof (cases n)
    case 0
    with Shutdown show ?thesis by (simp add: nvmlShutdown_def)
  next
    case (Suc m)
    with assms Shutdown show ?thesis
      by (simp add: nvmlShutdown_def sint_of_nat_small del: of_nat_Suc) simp
  qed
qed

lemma lifecycle_run_counter:
  "\<forall>n\<le>length cs. outstanding (take n cs) < 2 ^ 31 \<Longrightarrow>
   lifecycle_run cs 0 = word_of_nat (outstanding cs)"
proof (induction cs rule: rev_induct)
  case Nil
  show ?case by (simp add: lifecycle_run_def outstanding_def)
next
  case (snoc c cs)
  have pre: "\<forall>n\<le>length cs. outstanding (take n cs) < 2 ^ 31"
  proof (intro allI impI)
    fix n assume "n \<le> length cs"
    with snoc.prems [rule_format, of n] show "outstanding (take n cs) < 2 ^ 31" by simp
  qed
  have a: "outstanding cs < 2 ^ 31"
    using pre [rule_format, of "length cs"] by simp
  have b: "outstanding_step (outstanding cs) c < 2 ^ 31"
    using snoc.prems [rule_format, of "Suc (length cs)"] by (simp add: outstanding_snoc)
  show ?case
    by (simp add: lifecycle_run_snoc outstanding_snoc snoc.IH [OF pre]
        lifecycle_step_counter [OF a b])
qed

lemma lifecycle_run_inits: "lifecycle_run (replicate n Init) g = g + word_of_nat n"
  by (induction n arbitrary: g) (simp_all add: lifecycle_run_def nvmlInit_v2_def)

lemma outstanding_inits_from: "foldl outstanding_step k (replicate n Init) = k + n"
  by (induction n arbitrary: k) simp_all

lemma outstanding_inits: "outstanding (replicate n Init) = n"
  by (simp add: outstanding_def outstanding_inits_from)

text \<open>
  C2 says that the session is active exactly when inits are outstanding and
  that the counter is never negative. The code breaks this at the failing
  input of \<open>2 ^ 31\<close> calls of init and no shutdown, started with the counter at
  0: the counter is a 32-bit \<^verbatim>\<open>int\<close>, its increment overflows (undefined in
  ISO C; the compiled code wraps), and with \<open>2 ^ 31\<close> inits outstanding the
  counter is \<open>- 2 ^ 31\<close> and the session is not active, although the comments of
  \<^verbatim>\<open>nvmlInit_v2\<close> and \<^verbatim>\<open>nvmlShutdown\<close> promise that the library remains
  initialised until shutdown has been called an equal number of times.
\<close>

theorem session_counter_overflow:
  "0 < outstanding (replicate (2 ^ 31) Init)
   \<and> \<not> nvml_is_initialized (lifecycle_run (replicate (2 ^ 31) Init) 0)
   \<and> sint (lifecycle_run (replicate (2 ^ 31) Init) 0) < 0
   \<and> sint (lifecycle_run (replicate (2 ^ 31) Init) 0) = - (2 ^ 31)
   \<and> nvmlShutdown (lifecycle_run (replicate (2 ^ 31) Init) 0)
       = (NVML_ERROR_UNINITIALIZED, lifecycle_run (replicate (2 ^ 31) Init) 0)"
  by (simp add: lifecycle_run_inits outstanding_inits nvml_is_initialized_def nvmlShutdown_def)

text \<open>
  Short of the overflow the counter is the number of outstanding inits: for
  every sequence of init and shutdown calls, started with the counter at 0,
  during which fewer than \<open>2 ^ 31\<close> inits are outstanding, the counter equals
  that number, the session is active exactly when it is positive, and init and
  shutdown return and count as the comments say.
\<close>

lemma session_counter_below_overflow:
  assumes "\<forall>n\<le>length cs. outstanding (take n cs) < 2 ^ 31"
  shows "sint (lifecycle_run cs 0) = int (outstanding cs)
    \<and> 0 \<le> sint (lifecycle_run cs 0)
    \<and> (nvml_is_initialized (lifecycle_run cs 0) \<longleftrightarrow> 0 < outstanding cs)
    \<and> fst (nvmlInit_v2 (lifecycle_run cs 0)) = NVML_SUCCESS
    \<and> (outstanding (cs @ [Init]) < 2 ^ 31 \<longrightarrow>
         sint (snd (nvmlInit_v2 (lifecycle_run cs 0))) = sint (lifecycle_run cs 0) + 1)
    \<and> (sint (lifecycle_run cs 0) = 0 \<longrightarrow>
         nvmlShutdown (lifecycle_run cs 0) = (NVML_ERROR_UNINITIALIZED, lifecycle_run cs 0))
    \<and> (sint (lifecycle_run cs 0) \<noteq> 0 \<longrightarrow>
         fst (nvmlShutdown (lifecycle_run cs 0)) = NVML_SUCCESS
         \<and> sint (snd (nvmlShutdown (lifecycle_run cs 0))) = sint (lifecycle_run cs 0) - 1)"
proof -
  let ?n = "outstanding cs"
  have n: "?n < 2 ^ 31"
    using assms [rule_format, of "length cs"] by simp
  have g: "lifecycle_run cs 0 = word_of_nat ?n"
    by (rule lifecycle_run_counter [OF assms])
  have s: "sint (lifecycle_run cs 0) = int ?n"
    by (simp add: g sint_of_nat_small [OF n])
  have i: "outstanding (cs @ [Init]) < 2 ^ 31 \<longrightarrow>
         sint (snd (nvmlInit_v2 (lifecycle_run cs 0))) = sint (lifecycle_run cs 0) + 1"
  proof
    assume "outstanding (cs @ [Init]) < 2 ^ 31"
    then have "Suc ?n < 2 ^ 31" by (simp add: outstanding_snoc)
    from sint_of_nat_small [OF this]
    show "sint (snd (nvmlInit_v2 (lifecycle_run cs 0))) = sint (lifecycle_run cs 0) + 1"
      by (simp add: nvmlInit_v2_def s) (simp add: g add.commute)
  qed
  have d: "sint (lifecycle_run cs 0) \<noteq> 0 \<longrightarrow>
         fst (nvmlShutdown (lifecycle_run cs 0)) = NVML_SUCCESS
         \<and> sint (snd (nvmlShutdown (lifecycle_run cs 0))) = sint (lifecycle_run cs 0) - 1"
  proof
    assume "sint (lifecycle_run cs 0) \<noteq> 0"
    with s obtain m where m: "?n = Suc m" by (cases ?n) simp_all
    with n have "m < 2 ^ 31" by simp
    from sint_of_nat_small [OF this] have "sint (word_of_nat ?n - 1 :: 32 word) = int m"
      by (simp add: m)
    then show "fst (nvmlShutdown (lifecycle_run cs 0)) = NVML_SUCCESS
         \<and> sint (snd (nvmlShutdown (lifecycle_run cs 0))) = sint (lifecycle_run cs 0) - 1"
      using s by (simp add: nvmlShutdown_def) (simp add: g m)
  qed
  show ?thesis
    using s i d by (simp add: nvml_is_initialized_def nvmlInit_v2_def nvmlShutdown_def)
qed

section \<open>Properties of the handle codec\<close>

lemma index_cases:
  fixes i :: "32 word"
  assumes "i < 8"
  shows "i \<in> {0, 1, 2, 3, 4, 5, 6, 7}"
proof -
  from assms have "unat i < 8" by (simp add: word_less_nat_alt)
  then have "unat i \<in> {0, 1, 2, 3, 4, 5, 6, 7}" by simp arith
  then show ?thesis
    by (auto simp: unat_eq_0 dest!: arg_cong [where f = "word_of_nat :: nat \<Rightarrow> 32 word"])
qed

lemma handle_cases:
  fixes d :: "64 word"
  assumes "is_valid_device_handle d"
  shows "d \<in> {1, 2, 3, 4, 5, 6, 7, 8}"
proof -
  from assms have "1 \<le> unat d" "unat d \<le> 8"
    by (simp_all add: is_valid_device_handle_def word_le_nat_alt split: if_splits)
  then have "unat d \<in> {1, 2, 3, 4, 5, 6, 7, 8}" by simp arith
  then show ?thesis
    by (auto dest!: arg_cong [where f = "word_of_nat :: nat \<Rightarrow> 64 word"])
qed

lemma valid_handle_index_lt: "is_valid_device_handle d \<Longrightarrow> device_handle_to_index d < 8"
  by (drule handle_cases) (auto simp: device_handle_to_index_def is_valid_device_handle_def)

lemma invalid_handle_index: "\<not> is_valid_device_handle d \<Longrightarrow> device_handle_to_index d = - 1"
  by (simp add: device_handle_to_index_def)

lemma sentinel_iff: "device_handle_to_index d = - 1 \<longleftrightarrow> \<not> is_valid_device_handle d"
  using valid_handle_index_lt [of d] invalid_handle_index [of d] by auto

lemma mock_devices_at_valid: "i < 8 \<Longrightarrow> mock_devices_at i = Some (mock_devices ! unat i)"
  by (simp add: mock_devices_at_def mock_devices_def word_less_nat_alt)

lemma mock_devices_at_handle:
  "is_valid_device_handle d \<Longrightarrow> mock_devices_at (device_handle_to_index d) = Some (device_of_handle d)"
  by (simp add: mock_devices_at_valid valid_handle_index_lt device_of_handle_def)

lemma decode_encode: "i < 8 \<Longrightarrow> device_handle_to_index (handle_of_index i) = i"
  by (drule index_cases) (auto simp: device_handle_to_index_def is_valid_device_handle_def handle_of_index_def)

lemma encode_val: "i < 8 \<Longrightarrow> unat (handle_of_index i) = unat i + 1"
  by (drule index_cases) (auto simp: handle_of_index_def)

lemma encode_valid: "i < 8 \<Longrightarrow> is_valid_device_handle (handle_of_index i)"
  by (drule index_cases) (auto simp: is_valid_device_handle_def handle_of_index_def)

lemma device_of_handle_mem: "is_valid_device_handle d \<Longrightarrow> device_of_handle d \<in> set mock_devices"
proof -
  assume "is_valid_device_handle d"
  then have "unat (device_handle_to_index d) < length mock_devices"
    using valid_handle_index_lt [of d] by (simp add: word_less_nat_alt mock_devices_def)
  then show ?thesis unfolding device_of_handle_def by (rule nth_mem)
qed

text \<open>
  The remote index of an NVLink query is a table index whatever the link.
\<close>

lemma remote_index_lt:
  fixes idx link :: "32 word"
  shows "(idx + link div 2 + 1) mod 8 < 8"
  by (simp add: word_mod_less_divisor)

lemmas device_defs =
  nvmlDeviceGetCount_v2_def nvmlDeviceGetHandleByIndex_v2_def nvmlDeviceGetHandleByUUID_def
  nvmlDeviceGetHandleByPciBusId_v2_def nvmlDeviceGetName_def nvmlDeviceGetUUID_def
  nvmlDeviceGetPciInfo_v3_def nvmlDeviceGetMinorNumber_def nvmlDeviceGetIndex_def
  nvmlDeviceGetSerial_def nvmlDeviceGetBrand_def nvmlDeviceGetPersistenceMode_def
  nvmlDeviceGetDisplayMode_def nvmlDeviceGetDisplayActive_def nvmlDeviceGetBoardPartNumber_def
  nvmlDeviceGetAttributes_v2_def nvmlDeviceGetPciInfo_v2_def nvmlDeviceGetPciInfo_def
  nvmlDeviceGetCudaComputeCapability_def nvmlDeviceGetCount_def nvmlDeviceGetHandleByIndex_def
  nvmlDeviceGetHandleByPciBusId_def

lemmas memory_defs =
  nvmlDeviceGetMemoryInfo_def nvmlDeviceGetMemoryInfo_v2_def nvmlDeviceGetBAR1MemoryInfo_def
  nvmlDeviceGetTemperature_def nvmlDeviceGetPowerUsage_def nvmlDeviceGetEnforcedPowerLimit_def
  nvmlDeviceGetTotalEnergyConsumption_def nvmlDeviceGetClock_def nvmlDeviceGetMaxClockInfo_def
  nvmlDeviceGetClockInfo_def

lemmas mig_defs =
  nvmlDeviceGetMigMode_def nvmlDeviceGetMaxMigDeviceCount_def
  nvmlDeviceGetGpuInstancePossiblePlacements_v2_def nvmlDeviceGetGpuInstances_def
  nvmlDeviceCreateGpuInstance_def nvmlGpuInstanceDestroy_def nvmlComputeInstanceGetInfo_v2_def
  nvmlDeviceGetGpuInstancePossiblePlacements_def nvmlComputeInstanceGetInfo_def

lemmas system_defs =
  nvmlSystemGetDriverVersion_def nvmlSystemGetNVMLVersion_def nvmlSystemGetCudaDriverVersion_def
  nvmlSystemGetCudaDriverVersion_v2_def nvmlSystemGetProcessName_def nvmlSystemGetHicVersion_def
  nvmlSystemGetTopologyGpuSet_def nvmlSystemGetDriverBranch_def

lemmas stubs_defs =
  nvmlDeviceGetComputeRunningProcesses_v3_def nvmlDeviceGetGraphicsRunningProcesses_v3_def
  nvmlDeviceGetMPSComputeRunningProcesses_v3_def nvmlUnitGetCount_def
  nvmlUnitGetHandleByIndex_def nvmlDeviceGetSupportedEventTypes_def nvmlDeviceRegisterEvents_def
  nvmlEventSetCreate_def nvmlEventSetWait_v2_def nvmlEventSetFree_def
  nvmlDeviceSetPersistenceMode_def nvmlDeviceSetComputeMode_def nvmlDeviceGetNvLinkState_def
  nvmlDeviceGetNvLinkRemotePciInfo_v2_def nvmlDeviceGetNvLinkRemotePciInfo_def
  nvmlDeviceGetTopologyCommonAncestor_def nvmlDeviceGetTopologyNearestGpus_def
  nvmlDeviceGetP2PStatus_def nvmlDeviceGetComputeRunningProcesses_def
  nvmlDeviceGetComputeRunningProcesses_v2_def nvmlEventSetWait_def

lemmas handle_simps = sentinel_iff mock_devices_at_handle Let_def

text \<open>
  No call reads the fixture table outside its entries.
\<close>

lemma device_call_safe: "device_call_return H g c \<noteq> None"
  by (cases c) (auto simp: device_defs handle_simps split: if_splits option.splits)

lemma memory_call_safe: "memory_call_return H g c \<noteq> None"
  by (cases c) (auto simp: memory_defs handle_simps split: if_splits option.splits)

lemma mig_call_safe: "mig_call_return g c \<noteq> None"
  by (cases c) simp_all

lemma system_call_safe: "system_call_return E g c \<noteq> None"
  by (cases c) simp_all

lemma stubs_call_safe: "stubs_call_return H g c \<noteq> None"
  by (cases c)
    (auto simp: stubs_defs handle_simps mock_devices_at_valid remote_index_lt
          split: if_splits option.splits)

lemma nvml_call_safe: "nvml_call_return H E g c \<noteq> None"
  by (cases c)
    (simp_all add: device_call_safe memory_call_safe mig_call_safe system_call_safe
       stubs_call_safe)

text \<open>
  A call with a device handle that decodes to the sentinel returns the
  invalid-argument error when the session is active, whatever its other
  arguments.
\<close>

lemma device_call_rejects:
  "nvml_is_initialized g \<Longrightarrow> \<exists>d\<in>set (device_call_handles c). device_handle_to_index d = - 1 \<Longrightarrow>
   device_call_return H g c = Some NVML_ERROR_INVALID_ARGUMENT"
  by (cases c) (auto simp: device_defs handle_simps)

lemma memory_call_rejects:
  "nvml_is_initialized g \<Longrightarrow> \<exists>d\<in>set (memory_call_handles c). device_handle_to_index d = - 1 \<Longrightarrow>
   memory_call_return H g c = Some NVML_ERROR_INVALID_ARGUMENT"
  by (cases c) (auto simp: memory_defs handle_simps split: option.splits)

lemma mig_call_rejects:
  "nvml_is_initialized g \<Longrightarrow> \<exists>d\<in>set (mig_call_handles c). device_handle_to_index d = - 1 \<Longrightarrow>
   mig_call_return g c = Some NVML_ERROR_INVALID_ARGUMENT"
  by (cases c) (auto simp: mig_defs handle_simps)

lemma system_call_rejects:
  "nvml_is_initialized g \<Longrightarrow> \<exists>d\<in>set (system_call_handles c). device_handle_to_index d = - 1 \<Longrightarrow>
   system_call_return E g c = Some NVML_ERROR_INVALID_ARGUMENT"
  by (cases c) simp_all

lemma stubs_call_rejects:
  "nvml_is_initialized g \<Longrightarrow> \<exists>d\<in>set (stubs_call_handles c). device_handle_to_index d = - 1 \<Longrightarrow>
   stubs_call_return H g c = Some NVML_ERROR_INVALID_ARGUMENT"
  by (cases c) (auto simp: stubs_defs handle_simps split: option.splits)

lemma nvml_call_rejects:
  "nvml_is_initialized g \<Longrightarrow> \<exists>d\<in>set (nvml_call_handles c). device_handle_to_index d = - 1 \<Longrightarrow>
   nvml_call_return H E g c = Some NVML_ERROR_INVALID_ARGUMENT"
  by (cases c)
    (simp_all add: device_call_rejects memory_call_rejects mig_call_rejects system_call_rejects
       stubs_call_rejects)

text \<open>
  The functions that index the table with a decoded handle return before they
  do when the handle decodes to the sentinel, leaving their outputs as they
  were.
\<close>

lemma table_readers_reject_sentinel:
  assumes "nvml_is_initialized g" and "device_handle_to_index s = - 1"
  shows "nvmlDeviceGetName g s nameBuf len = Some (NVML_ERROR_INVALID_ARGUMENT, nameBuf)
    \<and> nvmlDeviceGetUUID g s uuidBuf len = Some (NVML_ERROR_INVALID_ARGUMENT, uuidBuf)
    \<and> nvmlDeviceGetSerial g s serialBuf len = Some (NVML_ERROR_INVALID_ARGUMENT, serialBuf)
    \<and> nvmlDeviceGetPciInfo_v3 H g s pci = Some (NVML_ERROR_INVALID_ARGUMENT, pci)
    \<and> nvmlDeviceGetMinorNumber g s u1 = Some (NVML_ERROR_INVALID_ARGUMENT, u1)
    \<and> nvmlDeviceGetBrand g s u1 = Some (NVML_ERROR_INVALID_ARGUMENT, u1)
    \<and> nvmlDeviceGetPersistenceMode g s u1 = Some (NVML_ERROR_INVALID_ARGUMENT, u1)
    \<and> nvmlDeviceGetDisplayMode g s u1 = Some (NVML_ERROR_INVALID_ARGUMENT, u1)
    \<and> nvmlDeviceGetDisplayActive g s u1 = Some (NVML_ERROR_INVALID_ARGUMENT, u1)
    \<and> nvmlDeviceGetCudaComputeCapability g s major minor
         = Some (NVML_ERROR_INVALID_ARGUMENT, major, minor)
    \<and> nvmlDeviceGetMemoryInfo g s memory = Some (NVML_ERROR_INVALID_ARGUMENT, memory)
    \<and> nvmlDeviceGetMemoryInfo_v2 H g s memory2 = Some (NVML_ERROR_INVALID_ARGUMENT, memory2)
    \<and> nvmlDeviceGetTemperature H g s sensorType u1 = Some (NVML_ERROR_INVALID_ARGUMENT, u1)
    \<and> nvmlDeviceGetPowerUsage g s u1 = Some (NVML_ERROR_INVALID_ARGUMENT, u1)
    \<and> nvmlDeviceGetEnforcedPowerLimit g s u1 = Some (NVML_ERROR_INVALID_ARGUMENT, u1)
    \<and> nvmlDeviceGetClock H g s clockType clockId u1 = Some (NVML_ERROR_INVALID_ARGUMENT, u1)
    \<and> nvmlDeviceGetNvLinkRemotePciInfo_v2 H g s link pci
         = Some (NVML_ERROR_INVALID_ARGUMENT, pci)"
  using assms
  by (simp add: sentinel_iff Let_def nvmlDeviceGetName_def nvmlDeviceGetUUID_def
      nvmlDeviceGetSerial_def nvmlDeviceGetPciInfo_v3_def nvmlDeviceGetMinorNumber_def
      nvmlDeviceGetBrand_def nvmlDeviceGetPersistenceMode_def nvmlDeviceGetDisplayMode_def
      nvmlDeviceGetDisplayActive_def nvmlDeviceGetCudaComputeCapability_def
      nvmlDeviceGetMemoryInfo_def nvmlDeviceGetMemoryInfo_v2_def nvmlDeviceGetTemperature_def
      nvmlDeviceGetPowerUsage_def nvmlDeviceGetEnforcedPowerLimit_def nvmlDeviceGetClock_def
      nvmlDeviceGetNvLinkRemotePciInfo_v2_def split: option.splits)

text \<open>
  C3: for every index \<open>i\<close> in \<open>[0, 8)\<close> the handle of \<open>i\<close> has the value
  \<open>i + 1\<close>, is never 0, and decodes to \<open>i\<close>; the lookup by index stores that
  handle and the index query returns \<open>i\<close> for it. For every handle value
  outside \<open>[1, 8]\<close> decoding yields the sentinel \<^verbatim>\<open>(unsigned int)-1\<close>, the
  largest 32-bit value. Every caller excludes the sentinel before it indexes
  the fixture table: no call reads the table out of range; every call with a
  handle that decodes to the sentinel returns the invalid-argument error in an
  active session; and each of the seventeen functions that index the table
  with a decoded handle then returns that error with its outputs untouched
  (\<^verbatim>\<open>nvmlDeviceGetCudaComputeCapability\<close> and
  \<^verbatim>\<open>nvmlDeviceGetNvLinkRemotePciInfo_v2\<close>, which test the handle with
  \<^verbatim>\<open>is_valid_device_handle\<close> instead of comparing with the sentinel, among
  them).
\<close>

theorem handle_round_trip:
  "(i < 8 \<longrightarrow>
      unat (handle_of_index i) = unat i + 1 \<and> handle_of_index i \<noteq> 0
      \<and> device_handle_to_index (handle_of_index i) = i
      \<and> (nvml_is_initialized g \<longrightarrow>
           nvmlDeviceGetHandleByIndex_v2 g i (Some h0) = (NVML_SUCCESS, Some (handle_of_index i))
           \<and> nvmlDeviceGetIndex g (handle_of_index i) (Some i0) = (NVML_SUCCESS, Some i)))
   \<and> (h < 1 \<or> 8 < h \<longrightarrow> device_handle_to_index h = - 1)
   \<and> (\<forall>w :: c_uint. w \<le> - 1)
   \<and> nvml_call_return H E g c \<noteq> None
   \<and> (nvml_is_initialized g
        \<and> (\<exists>d\<in>set (nvml_call_handles c). device_handle_to_index d = - 1) \<longrightarrow>
      nvml_call_return H E g c = Some NVML_ERROR_INVALID_ARGUMENT)
   \<and> (nvml_is_initialized g \<and> device_handle_to_index s = - 1 \<longrightarrow>
      nvmlDeviceGetName g s nameBuf len = Some (NVML_ERROR_INVALID_ARGUMENT, nameBuf)
      \<and> nvmlDeviceGetUUID g s uuidBuf len = Some (NVML_ERROR_INVALID_ARGUMENT, uuidBuf)
      \<and> nvmlDeviceGetSerial g s serialBuf len = Some (NVML_ERROR_INVALID_ARGUMENT, serialBuf)
      \<and> nvmlDeviceGetPciInfo_v3 H g s pci = Some (NVML_ERROR_INVALID_ARGUMENT, pci)
      \<and> nvmlDeviceGetMinorNumber g s u1 = Some (NVML_ERROR_INVALID_ARGUMENT, u1)
      \<and> nvmlDeviceGetBrand g s u1 = Some (NVML_ERROR_INVALID_ARGUMENT, u1)
      \<and> nvmlDeviceGetPersistenceMode g s u1 = Some (NVML_ERROR_INVALID_ARGUMENT, u1)
      \<and> nvmlDeviceGetDisplayMode g s u1 = Some (NVML_ERROR_INVALID_ARGUMENT, u1)
      \<and> nvmlDeviceGetDisplayActive g s u1 = Some (NVML_ERROR_INVALID_ARGUMENT, u1)
      \<and> nvmlDeviceGetCudaComputeCapability g s major minor
           = Some (NVML_ERROR_INVALID_ARGUMENT, major, minor)
      \<and> nvmlDeviceGetMemoryInfo g s memory = Some (NVML_ERROR_INVALID_ARGUMENT, memory)
      \<and> nvmlDeviceGetMemoryInfo_v2 H g s memory2 = Some (NVML_ERROR_INVALID_ARGUMENT, memory2)
      \<and> nvmlDeviceGetTemperature H g s sensorType u1 = Some (NVML_ERROR_INVALID_ARGUMENT, u1)
      \<and> nvmlDeviceGetPowerUsage g s u1 = Some (NVML_ERROR_INVALID_ARGUMENT, u1)
      \<and> nvmlDeviceGetEnforcedPowerLimit g s u1 = Some (NVML_ERROR_INVALID_ARGUMENT, u1)
      \<and> nvmlDeviceGetClock H g s clockType clockId u1 = Some (NVML_ERROR_INVALID_ARGUMENT, u1)
      \<and> nvmlDeviceGetNvLinkRemotePciInfo_v2 H g s link pci
           = Some (NVML_ERROR_INVALID_ARGUMENT, pci))"
proof (intro conjI)
  show "i < 8 \<longrightarrow>
      unat (handle_of_index i) = unat i + 1 \<and> handle_of_index i \<noteq> 0
      \<and> device_handle_to_index (handle_of_index i) = i
      \<and> (nvml_is_initialized g \<longrightarrow>
           nvmlDeviceGetHandleByIndex_v2 g i (Some h0) = (NVML_SUCCESS, Some (handle_of_index i))
           \<and> nvmlDeviceGetIndex g (handle_of_index i) (Some i0) = (NVML_SUCCESS, Some i))"
  proof
    assume i: "i < 8"
    from encode_valid [OF i] have nz: "handle_of_index i \<noteq> 0"
      by (auto simp: is_valid_device_handle_def)
    from encode_valid [OF i] have ns: "device_handle_to_index (handle_of_index i) \<noteq> - 1"
      by (simp add: sentinel_iff)
    show "unat (handle_of_index i) = unat i + 1 \<and> handle_of_index i \<noteq> 0
      \<and> device_handle_to_index (handle_of_index i) = i
      \<and> (nvml_is_initialized g \<longrightarrow>
           nvmlDeviceGetHandleByIndex_v2 g i (Some h0) = (NVML_SUCCESS, Some (handle_of_index i))
           \<and> nvmlDeviceGetIndex g (handle_of_index i) (Some i0) = (NVML_SUCCESS, Some i))"
      using i nz ns
      by (simp add: encode_val decode_encode nvmlDeviceGetHandleByIndex_v2_def
          nvmlDeviceGetIndex_def is_valid_device_index_def Let_def)
  qed
  show "h < 1 \<or> 8 < h \<longrightarrow> device_handle_to_index h = - 1"
    by (auto simp: device_handle_to_index_def is_valid_device_handle_def)
  show "\<forall>w :: c_uint. w \<le> - 1" by simp
  show "nvml_call_return H E g c \<noteq> None" by (rule nvml_call_safe)
  show "nvml_is_initialized g
        \<and> (\<exists>d\<in>set (nvml_call_handles c). device_handle_to_index d = - 1) \<longrightarrow>
      nvml_call_return H E g c = Some NVML_ERROR_INVALID_ARGUMENT"
    by (blast intro: nvml_call_rejects)
  show "nvml_is_initialized g \<and> device_handle_to_index s = - 1 \<longrightarrow>
      nvmlDeviceGetName g s nameBuf len = Some (NVML_ERROR_INVALID_ARGUMENT, nameBuf)
      \<and> nvmlDeviceGetUUID g s uuidBuf len = Some (NVML_ERROR_INVALID_ARGUMENT, uuidBuf)
      \<and> nvmlDeviceGetSerial g s serialBuf len = Some (NVML_ERROR_INVALID_ARGUMENT, serialBuf)
      \<and> nvmlDeviceGetPciInfo_v3 H g s pci = Some (NVML_ERROR_INVALID_ARGUMENT, pci)
      \<and> nvmlDeviceGetMinorNumber g s u1 = Some (NVML_ERROR_INVALID_ARGUMENT, u1)
      \<and> nvmlDeviceGetBrand g s u1 = Some (NVML_ERROR_INVALID_ARGUMENT, u1)
      \<and> nvmlDeviceGetPersistenceMode g s u1 = Some (NVML_ERROR_INVALID_ARGUMENT, u1)
      \<and> nvmlDeviceGetDisplayMode g s u1 = Some (NVML_ERROR_INVALID_ARGUMENT, u1)
      \<and> nvmlDeviceGetDisplayActive g s u1 = Some (NVML_ERROR_INVALID_ARGUMENT, u1)
      \<and> nvmlDeviceGetCudaComputeCapability g s major minor
           = Some (NVML_ERROR_INVALID_ARGUMENT, major, minor)
      \<and> nvmlDeviceGetMemoryInfo g s memory = Some (NVML_ERROR_INVALID_ARGUMENT, memory)
      \<and> nvmlDeviceGetMemoryInfo_v2 H g s memory2 = Some (NVML_ERROR_INVALID_ARGUMENT, memory2)
      \<and> nvmlDeviceGetTemperature H g s sensorType u1 = Some (NVML_ERROR_INVALID_ARGUMENT, u1)
      \<and> nvmlDeviceGetPowerUsage g s u1 = Some (NVML_ERROR_INVALID_ARGUMENT, u1)
      \<and> nvmlDeviceGetEnforcedPowerLimit g s u1 = Some (NVML_ERROR_INVALID_ARGUMENT, u1)
      \<and> nvmlDeviceGetClock H g s clockType clockId u1 = Some (NVML_ERROR_INVALID_ARGUMENT, u1)
      \<and> nvmlDeviceGetNvLinkRemotePciInfo_v2 H g s link pci
           = Some (NVML_ERROR_INVALID_ARGUMENT, pci)"
    using table_readers_reject_sentinel [of g s] by blast
qed

text \<open>
  C3 at index 3, at the handles 9 and 0, and at the remote-PCI-info and
  compute-capability queries with the \<^verbatim>\<open>NULL\<close> handle.
\<close>

theorem handle_round_trip_witness:
  "device_handle_to_index (handle_of_index 3) = 3 \<and> handle_of_index 3 = 4
   \<and> device_handle_to_index 9 = - 1 \<and> device_handle_to_index 0 = - 1
   \<and> nvmlDeviceGetIndex 1 (handle_of_index 3) (Some 0) = (NVML_SUCCESS, Some 3)
   \<and> nvml_call_return nvml_h_published (\<lambda>_. None) 1
        (Stubs_call (Call_DeviceGetNvLinkRemotePciInfo_v2 0 0 (Some \<lparr>pciInfo_busIdLegacy = [], pciInfo_domain = 0, pciInfo_bus = 0,
            pciInfo_device = 0, pciInfo_pciDeviceId = 0, pciInfo_pciSubSystemId = 0,
            pciInfo_busId = []\<rparr>)))
       = Some NVML_ERROR_INVALID_ARGUMENT
   \<and> nvmlDeviceGetNvLinkRemotePciInfo_v2 nvml_h_published 1 0 0 (Some \<lparr>pciInfo_busIdLegacy = [], pciInfo_domain = 0, pciInfo_bus = 0,
            pciInfo_device = 0, pciInfo_pciDeviceId = 0, pciInfo_pciSubSystemId = 0,
            pciInfo_busId = []\<rparr>)
       = Some (NVML_ERROR_INVALID_ARGUMENT, Some \<lparr>pciInfo_busIdLegacy = [], pciInfo_domain = 0, pciInfo_bus = 0,
            pciInfo_device = 0, pciInfo_pciDeviceId = 0, pciInfo_pciSubSystemId = 0,
            pciInfo_busId = []\<rparr>)
   \<and> nvmlDeviceGetCudaComputeCapability 1 0 (Some 1) (Some 2)
       = Some (NVML_ERROR_INVALID_ARGUMENT, Some 1, Some 2)"
proof -
  let ?p0 = "\<lparr>pciInfo_busIdLegacy = [], pciInfo_domain = 0, pciInfo_bus = 0,
            pciInfo_device = 0, pciInfo_pciDeviceId = 0, pciInfo_pciSubSystemId = 0,
            pciInfo_busId = []\<rparr>"
  have a: "nvml_is_initialized 1" by (simp add: nvml_is_initialized_def)
  have z: "device_handle_to_index 0 = - 1"
    by (simp add: device_handle_to_index_def is_valid_device_handle_def)
  note t = handle_round_trip [of 3 1 _ _ _ nvml_h_published "\<lambda>_. None"
      "Stubs_call (Call_DeviceGetNvLinkRemotePciInfo_v2 0 0 (Some ?p0))" 0 _ _ _ _ "Some ?p0" _
      "Some 1" "Some 2" _ _ _ _ _ 0]
  have 1: "device_handle_to_index (handle_of_index 3) = 3 \<and> handle_of_index 3 = 4
      \<and> nvmlDeviceGetIndex 1 (handle_of_index 3) (Some 0) = (NVML_SUCCESS, Some 3)"
    using t [THEN conjunct1, of 0 0] a by (simp add: handle_of_index_def)
  have 2: "device_handle_to_index 9 = - 1"
    using t [THEN conjunct2, THEN conjunct1, of 9] by simp
  have 3: "nvml_call_return nvml_h_published (\<lambda>_. None) 1
        (Stubs_call (Call_DeviceGetNvLinkRemotePciInfo_v2 0 0 (Some ?p0)))
       = Some NVML_ERROR_INVALID_ARGUMENT"
    using t [THEN conjunct2, THEN conjunct2, THEN conjunct2, THEN conjunct2, THEN conjunct1] a z
    by simp
  have 4: "nvmlDeviceGetNvLinkRemotePciInfo_v2 nvml_h_published 1 0 0 (Some ?p0)
       = Some (NVML_ERROR_INVALID_ARGUMENT, Some ?p0)
     \<and> nvmlDeviceGetCudaComputeCapability 1 0 (Some 1) (Some 2)
       = Some (NVML_ERROR_INVALID_ARGUMENT, Some 1, Some 2)"
    using t [THEN conjunct2, THEN conjunct2, THEN conjunct2, THEN conjunct2, THEN conjunct2] a z
    by simp
  from 1 2 z 3 4 show ?thesis by blast
qed

section \<open>The validation order of the operations\<close>

text \<open>
  C1 says that every operation, with the session active and a required output
  pointer \<^verbatim>\<open>NULL\<close>, returns the invalid-argument error. The code breaks this
  at \<^verbatim>\<open>nvmlDeviceCreateGpuInstance\<close> with a valid handle and \<^verbatim>\<open>gpuInstance\<close>
  \<^verbatim>\<open>NULL\<close>, and at \<^verbatim>\<open>nvmlComputeInstanceGetInfo_v2\<close> (and its alias) with
  \<^verbatim>\<open>info\<close> \<^verbatim>\<open>NULL\<close>: these functions never test their only output pointer and
  return the not-supported error. Their siblings test the output pointers even
  where they write nothing: \<^verbatim>\<open>nvmlDeviceGetMigMode\<close> and
  \<^verbatim>\<open>nvmlEventSetWait_v2\<close> return the invalid-argument error for a \<^verbatim>\<open>NULL\<close>
  pointer.
\<close>

theorem facade_untested_output_pointer:
  "nvml_is_initialized 1 \<and> is_valid_device_handle 1
   \<and> nvmlDeviceCreateGpuInstance 1 1 0 0 = NVML_ERROR_NOT_SUPPORTED
   \<and> nvmlComputeInstanceGetInfo_v2 1 5 0 = NVML_ERROR_NOT_SUPPORTED
   \<and> nvmlComputeInstanceGetInfo 1 5 0 = NVML_ERROR_NOT_SUPPORTED
   \<and> nvml_call_return nvml_h_published (\<lambda>_. None) 1
        (Mig_call (Call_DeviceCreateGpuInstance 1 0 0)) = Some NVML_ERROR_NOT_SUPPORTED
   \<and> nvmlDeviceGetMigMode 1 1 None None = (NVML_ERROR_INVALID_ARGUMENT, None, None)
   \<and> nvmlEventSetWait_v2 1 5 None 0 = NVML_ERROR_INVALID_ARGUMENT"
  by (simp add: nvml_is_initialized_def is_valid_device_handle_def
      nvmlDeviceCreateGpuInstance_def nvmlComputeInstanceGetInfo_v2_def
      nvmlComputeInstanceGetInfo_def nvmlDeviceGetMigMode_def nvmlEventSetWait_v2_def
      device_handle_to_index_def)

section \<open>Memory queries\<close>

lemma fixture_memory:
  "d \<in> set mock_devices \<Longrightarrow>
   memory_total d = 42949672960 \<and> memory_free d = 42949672960 \<and> memory_used d = 0"
  by (auto simp: mock_devices_def mock_device_0_def mock_device_1_def mock_device_2_def
      mock_device_3_def mock_device_4_def mock_device_5_def mock_device_6_def mock_device_7_def)

text \<open>
  C4: whenever the v1 or the v2 memory query succeeds, the record it stores
  satisfies total = free + used, with used = 0 and free = total, and the v2
  record has reserved = 0; and for each of the 8 devices both queries succeed
  (the v2 query for each accepted version tag) and store these values.
\<close>

theorem memory_invariant:
  "(nvmlDeviceGetMemoryInfo g device memory = Some (NVML_SUCCESS, Some m) \<longrightarrow>
      mem_total m = mem_free m + mem_used m \<and> mem_used m = 0 \<and> mem_free m = mem_total m)
   \<and> (nvmlDeviceGetMemoryInfo_v2 H g device memory2 = Some (NVML_SUCCESS, Some m2) \<longrightarrow>
      mem2_total m2 = mem2_free m2 + mem2_used m2 \<and> mem2_used m2 = 0
      \<and> mem2_free m2 = mem2_total m2 \<and> mem2_reserved m2 = 0)
   \<and> (nvml_is_initialized g \<and> i < 8 \<longrightarrow>
      nvmlDeviceGetMemoryInfo g (handle_of_index i) (Some v1)
        = Some (NVML_SUCCESS,
            Some (v1\<lparr>mem_total := 42949672960, mem_free := 42949672960, mem_used := 0\<rparr>)))
   \<and> (nvml_is_initialized g \<and> i < 8
        \<and> (mem2_version v2 = nvmlMemory_v2 H \<or> mem2_version v2 = 0) \<longrightarrow>
      nvmlDeviceGetMemoryInfo_v2 H g (handle_of_index i) (Some v2)
        = Some (NVML_SUCCESS,
            Some (v2\<lparr>mem2_version := nvmlMemory_v2 H, mem2_total := 42949672960,
              mem2_reserved := 0, mem2_free := 42949672960, mem2_used := 0\<rparr>)))"
proof (intro conjI impI)
  assume "nvmlDeviceGetMemoryInfo g device memory = Some (NVML_SUCCESS, Some m)"
  then have v: "is_valid_device_handle device"
    and m: "\<exists>m0. m = m0\<lparr>mem_total := memory_total (device_of_handle device),
        mem_free := memory_free (device_of_handle device),
        mem_used := memory_used (device_of_handle device)\<rparr>"
    by (auto simp: nvmlDeviceGetMemoryInfo_def Let_def sentinel_iff mock_devices_at_handle
        split: if_splits option.splits)
  from fixture_memory [OF device_of_handle_mem [OF v]] m
  show "mem_total m = mem_free m + mem_used m" "mem_used m = 0" "mem_free m = mem_total m"
    by auto
next
  assume "nvmlDeviceGetMemoryInfo_v2 H g device memory2 = Some (NVML_SUCCESS, Some m2)"
  then have v: "is_valid_device_handle device"
    and m: "\<exists>m0. m2 = m0\<lparr>mem2_version := nvmlMemory_v2 H,
        mem2_total := memory_total (device_of_handle device), mem2_reserved := 0,
        mem2_free := memory_free (device_of_handle device),
        mem2_used := memory_used (device_of_handle device)\<rparr>"
    by (auto simp: nvmlDeviceGetMemoryInfo_v2_def Let_def sentinel_iff mock_devices_at_handle
        split: if_splits option.splits)
  from fixture_memory [OF device_of_handle_mem [OF v]] m
  show "mem2_total m2 = mem2_free m2 + mem2_used m2" "mem2_used m2 = 0"
    "mem2_free m2 = mem2_total m2" "mem2_reserved m2 = 0"
    by auto
next
  assume a: "nvml_is_initialized g \<and> i < 8"
  then have v: "is_valid_device_handle (handle_of_index i)" by (simp add: encode_valid)
  from fixture_memory [OF device_of_handle_mem [OF v]] a v
  show "nvmlDeviceGetMemoryInfo g (handle_of_index i) (Some v1)
        = Some (NVML_SUCCESS,
            Some (v1\<lparr>mem_total := 42949672960, mem_free := 42949672960, mem_used := 0\<rparr>))"
    by (simp add: nvmlDeviceGetMemoryInfo_def Let_def sentinel_iff mock_devices_at_handle)
next
  assume a: "nvml_is_initialized g \<and> i < 8
        \<and> (mem2_version v2 = nvmlMemory_v2 H \<or> mem2_version v2 = 0)"
  then have v: "is_valid_device_handle (handle_of_index i)" by (simp add: encode_valid)
  from fixture_memory [OF device_of_handle_mem [OF v]] a v
  show "nvmlDeviceGetMemoryInfo_v2 H g (handle_of_index i) (Some v2)
        = Some (NVML_SUCCESS,
            Some (v2\<lparr>mem2_version := nvmlMemory_v2 H, mem2_total := 42949672960,
              mem2_reserved := 0, mem2_free := 42949672960, mem2_used := 0\<rparr>))"
    by (auto simp: nvmlDeviceGetMemoryInfo_v2_def Let_def sentinel_iff mock_devices_at_handle)
qed

text \<open>
  C4 at the last device, for both queries.
\<close>

theorem memory_invariant_witness:
  "nvmlDeviceGetMemoryInfo 1 (handle_of_index 7)
      (Some \<lparr>mem_total = 1, mem_free = 2, mem_used = 3\<rparr>)
     = Some (NVML_SUCCESS,
         Some \<lparr>mem_total = 42949672960, mem_free = 42949672960, mem_used = 0\<rparr>)
   \<and> nvmlDeviceGetMemoryInfo_v2 nvml_h_published 1 (handle_of_index 7)
      (Some \<lparr>mem2_version = 0, mem2_total = 1, mem2_reserved = 2, mem2_free = 3, mem2_used = 4\<rparr>)
     = Some (NVML_SUCCESS,
         Some \<lparr>mem2_version = 0x02000028, mem2_total = 42949672960, mem2_reserved = 0,
           mem2_free = 42949672960, mem2_used = 0\<rparr>)"
  using memory_invariant [of 1 0 None "\<lparr>mem_total = 0, mem_free = 0, mem_used = 0\<rparr>"
      nvml_h_published None
      "\<lparr>mem2_version = 0, mem2_total = 0, mem2_reserved = 0, mem2_free = 0, mem2_used = 0\<rparr>"
      7 "\<lparr>mem_total = 1, mem_free = 2, mem_used = 3\<rparr>"
      "\<lparr>mem2_version = 0, mem2_total = 1, mem2_reserved = 2, mem2_free = 3, mem2_used = 4\<rparr>"]
  by (simp add: nvml_is_initialized_def nvml_h_published_def)

text \<open>
  C5, as stated, fails: with an active session and a non-null struct whose
  version tag is the zero sentinel, the v2 query still returns the
  invalid-argument error when the handle is invalid (here the \<^verbatim>\<open>NULL\<close> handle).
\<close>

theorem memory_v2_version_counterexample:
  "nvml_is_initialized 1
   \<and> \<not> (map_option fst (nvmlDeviceGetMemoryInfo_v2 nvml_h_published 1 0
         (Some \<lparr>mem2_version = 0, mem2_total = 0, mem2_reserved = 0, mem2_free = 0,
            mem2_used = 0\<rparr>)) = Some NVML_ERROR_INVALID_ARGUMENT
       \<longleftrightarrow>
         mem2_version \<lparr>mem2_version = 0, mem2_total = 0, mem2_reserved = 0, mem2_free = 0,
            mem2_used = 0\<rparr> \<noteq> nvmlMemory_v2 nvml_h_published
         \<and> mem2_version \<lparr>mem2_version = 0, mem2_total = 0, mem2_reserved = 0, mem2_free = 0,
            mem2_used = 0\<rparr> \<noteq> 0)"
  by (simp add: nvmlDeviceGetMemoryInfo_v2_def nvml_is_initialized_def nvml_h_published_def
      device_handle_to_index_def is_valid_device_handle_def)

text \<open>
  C5 (amended): given an active session, a non-null output struct and a valid
  device handle, the v2 memory query returns the invalid-argument error if and
  only if the supplied version tag is neither the v2 tag nor zero; otherwise it
  succeeds, and on success the version field of the output is the v2 tag,
  whichever accepted value was supplied.
\<close>

theorem memory_v2_version_check:
  assumes "nvml_is_initialized g" and "is_valid_device_handle device"
  shows "(map_option fst (nvmlDeviceGetMemoryInfo_v2 H g device (Some m))
            = Some NVML_ERROR_INVALID_ARGUMENT
          \<longleftrightarrow> mem2_version m \<noteq> nvmlMemory_v2 H \<and> mem2_version m \<noteq> 0)
    \<and> (mem2_version m = nvmlMemory_v2 H \<or> mem2_version m = 0 \<longrightarrow>
          (\<exists>m'. nvmlDeviceGetMemoryInfo_v2 H g device (Some m) = Some (NVML_SUCCESS, Some m')
             \<and> mem2_version m' = nvmlMemory_v2 H))
    \<and> (\<forall>m'. nvmlDeviceGetMemoryInfo_v2 H g device (Some m) = Some (NVML_SUCCESS, Some m')
          \<longrightarrow> mem2_version m' = nvmlMemory_v2 H)"
  using assms
  by (auto simp: nvmlDeviceGetMemoryInfo_v2_def Let_def sentinel_iff mock_devices_at_handle)

text \<open>
  C5 (amended) at device handle 2, with the version tags 7 and 0.
\<close>

theorem memory_v2_version_check_witness:
  "map_option fst (nvmlDeviceGetMemoryInfo_v2 nvml_h_published 1 2
      (Some \<lparr>mem2_version = 7, mem2_total = 0, mem2_reserved = 0, mem2_free = 0, mem2_used = 0\<rparr>))
     = Some NVML_ERROR_INVALID_ARGUMENT
   \<and> (\<exists>m'. nvmlDeviceGetMemoryInfo_v2 nvml_h_published 1 2
      (Some \<lparr>mem2_version = 0, mem2_total = 0, mem2_reserved = 0, mem2_free = 0, mem2_used = 0\<rparr>)
        = Some (NVML_SUCCESS, Some m') \<and> mem2_version m' = 0x02000028)"
proof -
  have a: "nvml_is_initialized 1" by (simp add: nvml_is_initialized_def)
  have v: "is_valid_device_handle 2" by (simp add: is_valid_device_handle_def)
  show ?thesis
    using memory_v2_version_check [OF a v, of nvml_h_published
        "\<lparr>mem2_version = 7, mem2_total = 0, mem2_reserved = 0, mem2_free = 0, mem2_used = 0\<rparr>"]
      memory_v2_version_check [OF a v, of nvml_h_published
        "\<lparr>mem2_version = 0, mem2_total = 0, mem2_reserved = 0, mem2_free = 0, mem2_used = 0\<rparr>"]
    by (simp add: nvml_h_published_def)
qed

section \<open>NVLink topology\<close>







section \<open>MIG queries\<close>

text \<open>
  C7: with an active session, a valid handle and non-null output pointers, the
  MIG mode, placement, instance, create, destroy and compute-instance-info
  queries return the not-supported error, while the max-MIG-device-count query
  returns success with count 0.
\<close>

theorem mig_not_supported_asymmetry:
  assumes "nvml_is_initialized g" and "is_valid_device_handle device"
  shows "nvmlDeviceGetMigMode g device (Some cur) (Some pend)
           = (NVML_ERROR_NOT_SUPPORTED, Some cur, Some pend)
    \<and> fst (nvmlDeviceGetGpuInstancePossiblePlacements_v2 g device profileId placements (Some n))
           = NVML_ERROR_NOT_SUPPORTED
    \<and> fst (nvmlDeviceGetGpuInstancePossiblePlacements g device profileId placements (Some n))
           = NVML_ERROR_NOT_SUPPORTED
    \<and> fst (nvmlDeviceGetGpuInstances g device profileId instances (Some n))
           = NVML_ERROR_NOT_SUPPORTED
    \<and> nvmlDeviceCreateGpuInstance g device profileId gpuInstance = NVML_ERROR_NOT_SUPPORTED
    \<and> nvmlGpuInstanceDestroy g gpuInstance = NVML_ERROR_NOT_SUPPORTED
    \<and> nvmlComputeInstanceGetInfo_v2 g computeInstance info = NVML_ERROR_NOT_SUPPORTED
    \<and> nvmlComputeInstanceGetInfo g computeInstance info = NVML_ERROR_NOT_SUPPORTED
    \<and> nvmlDeviceGetMaxMigDeviceCount g device (Some n) = (NVML_SUCCESS, Some 0)"
  using assms by (simp add: mig_defs Let_def sentinel_iff)

text \<open>
  C7 at device handle 3.
\<close>

theorem mig_not_supported_asymmetry_witness:
  "nvmlDeviceGetMigMode 1 3 (Some 5) (Some 6) = (NVML_ERROR_NOT_SUPPORTED, Some 5, Some 6)
   \<and> nvmlDeviceCreateGpuInstance 1 3 0 0 = NVML_ERROR_NOT_SUPPORTED
   \<and> nvmlDeviceGetMaxMigDeviceCount 1 3 (Some 9) = (NVML_SUCCESS, Some 0)"
proof -
  have a: "nvml_is_initialized 1" by (simp add: nvml_is_initialized_def)
  have v: "is_valid_device_handle 3" by (simp add: is_valid_device_handle_def)
  show ?thesis
    using mig_not_supported_asymmetry [OF a v, of 5 6 0 0 9 0 0 0 0] by simp
qed

section \<open>The buffer contract of the string queries\<close>

lemma strncpy_terminated_exact:
  "strncpy_terminated b v (length v + 1) = v @ NUL # drop (length v + 1) b"
  by (simp add: strncpy_terminated_def strncpy_def list_update_append)

lemma strncpy_terminated_Suc:
  "strncpy_terminated b v (Suc (length v)) = v @ NUL # drop (Suc (length v)) b"
  using strncpy_terminated_exact [of b v] by simp

lemma string_buffer_contract_zero:
  "r = (NVML_ERROR_INVALID_ARGUMENT, Some b) \<Longrightarrow> string_buffer_contract v b 0 r"
  by (simp add: string_buffer_contract_def)

lemma string_buffer_contract_nonzero:
  assumes "n \<noteq> 0"
    and "r = (if unat n < length v + 1 then (NVML_ERROR_INSUFFICIENT_SIZE, Some b)
              else (NVML_SUCCESS, Some (strncpy_terminated b v (unat n))))"
  shows "string_buffer_contract v b n r"
  using assms by (simp add: string_buffer_contract_def strncpy_terminated_Suc unat_eq_0)

lemma string_query_contract:
  assumes "r = (if n = 0 then (NVML_ERROR_INVALID_ARGUMENT, Some b)
                else if unat n < length v + 1 then (NVML_ERROR_INSUFFICIENT_SIZE, Some b)
                else (NVML_SUCCESS, Some (strncpy_terminated b v (unat n))))"
  shows "string_buffer_contract v b n r"
proof (cases "n = 0")
  case True
  with assms show ?thesis by (simp add: string_buffer_contract_zero)
next
  case False
  with assms show ?thesis by (intro string_buffer_contract_nonzero) simp_all
qed

text \<open>
  C8, as stated, fails at capacity 0: it is less than the length of the value
  plus one, yet the name query returns the invalid-argument error, not the
  insufficient-size error.
\<close>

theorem string_buffer_zero_capacity_counterexample:
  "nvml_is_initialized 1 \<and> is_valid_device_handle 1
   \<and> unat (0 :: c_uint) < length (name (device_of_handle 1)) + 1
   \<and> nvmlDeviceGetName 1 1 (Some ''xx'') 0 = Some (NVML_ERROR_INVALID_ARGUMENT, Some ''xx'')"
  by (simp add: nvml_is_initialized_def is_valid_device_handle_def nvmlDeviceGetName_def)

text \<open>
  C8 (amended): for every string query (name, UUID, serial, board part number,
  driver version, NVML version, driver branch, and the process name when the
  process is found), given an active session, a valid handle where there is
  one, and a non-null buffer: with a positive capacity below the length of the
  value plus one the query returns the insufficient-size error, and with
  capacity 0 the invalid-argument error, in both cases writing nothing; with
  capacity exactly the length plus one it returns success and the buffer holds
  the full value followed by NUL.
\<close>

theorem string_buffer_contract_holds:
  assumes "nvml_is_initialized g"
  shows "(is_valid_device_handle device \<longrightarrow>
       (\<exists>r. nvmlDeviceGetName g device (Some b) n = Some r
          \<and> string_buffer_contract (name (device_of_handle device)) b n r)
     \<and> (\<exists>r. nvmlDeviceGetUUID g device (Some b) n = Some r
          \<and> string_buffer_contract (uuid (device_of_handle device)) b n r)
     \<and> (\<exists>r. nvmlDeviceGetSerial g device (Some b) n = Some r
          \<and> string_buffer_contract (serial (device_of_handle device)) b n r)
     \<and> string_buffer_contract ''699-21001-0000-000'' b n
          (nvmlDeviceGetBoardPartNumber g device (Some b) n))
   \<and> string_buffer_contract MOCK_DRIVER_VERSION b n (nvmlSystemGetDriverVersion g (Some b) n)
   \<and> string_buffer_contract MOCK_NVML_VERSION b n (nvmlSystemGetNVMLVersion g (Some b) n)
   \<and> string_buffer_contract ''r550_00'' b n (nvmlSystemGetDriverBranch g (Some b) n)
   \<and> (proc_exe pid = Some exe_path \<and> exe_path \<noteq> [] \<longrightarrow>
        string_buffer_contract (basename_of exe_path) b n
          (nvmlSystemGetProcessName proc_exe g pid (Some b) n))"
proof (intro conjI impI)
  assume v: "is_valid_device_handle device"
  let ?dev = "device_of_handle device"
  have "nvmlDeviceGetName g device (Some b) n =
      Some (if n = 0 then (NVML_ERROR_INVALID_ARGUMENT, Some b)
            else if unat n < length (name ?dev) + 1 then (NVML_ERROR_INSUFFICIENT_SIZE, Some b)
            else (NVML_SUCCESS, Some (strncpy_terminated b (name ?dev) (unat n))))"
    using assms v
    by (simp add: nvmlDeviceGetName_def Let_def sentinel_iff mock_devices_at_handle)
  then show "\<exists>r. nvmlDeviceGetName g device (Some b) n = Some r
          \<and> string_buffer_contract (name ?dev) b n r"
    by (simp only: string_query_contract [OF refl] simp_thms option.inject ex_simps)
  have "nvmlDeviceGetUUID g device (Some b) n =
      Some (if n = 0 then (NVML_ERROR_INVALID_ARGUMENT, Some b)
            else if unat n < length (uuid ?dev) + 1 then (NVML_ERROR_INSUFFICIENT_SIZE, Some b)
            else (NVML_SUCCESS, Some (strncpy_terminated b (uuid ?dev) (unat n))))"
    using assms v
    by (simp add: nvmlDeviceGetUUID_def Let_def sentinel_iff mock_devices_at_handle)
  then show "\<exists>r. nvmlDeviceGetUUID g device (Some b) n = Some r
          \<and> string_buffer_contract (uuid ?dev) b n r"
    by (simp only: string_query_contract [OF refl] simp_thms option.inject ex_simps)
  have "nvmlDeviceGetSerial g device (Some b) n =
      Some (if n = 0 then (NVML_ERROR_INVALID_ARGUMENT, Some b)
            else if unat n < length (serial ?dev) + 1 then (NVML_ERROR_INSUFFICIENT_SIZE, Some b)
            else (NVML_SUCCESS, Some (strncpy_terminated b (serial ?dev) (unat n))))"
    using assms v
    by (simp add: nvmlDeviceGetSerial_def Let_def sentinel_iff mock_devices_at_handle)
  then show "\<exists>r. nvmlDeviceGetSerial g device (Some b) n = Some r
          \<and> string_buffer_contract (serial ?dev) b n r"
    by (simp only: string_query_contract [OF refl] simp_thms option.inject ex_simps)
  show "string_buffer_contract ''699-21001-0000-000'' b n
          (nvmlDeviceGetBoardPartNumber g device (Some b) n)"
    using assms v
    by (intro string_query_contract)
      (simp add: nvmlDeviceGetBoardPartNumber_def Let_def sentinel_iff)
next
  show "string_buffer_contract MOCK_DRIVER_VERSION b n (nvmlSystemGetDriverVersion g (Some b) n)"
    using assms by (intro string_query_contract) (simp add: nvmlSystemGetDriverVersion_def)
next
  show "string_buffer_contract MOCK_NVML_VERSION b n (nvmlSystemGetNVMLVersion g (Some b) n)"
    using assms by (intro string_query_contract) (simp add: nvmlSystemGetNVMLVersion_def)
next
  show "string_buffer_contract ''r550_00'' b n (nvmlSystemGetDriverBranch g (Some b) n)"
    using assms by (intro string_query_contract) (simp add: nvmlSystemGetDriverBranch_def Let_def)
next
  assume "proc_exe pid = Some exe_path \<and> exe_path \<noteq> []"
  with assms show "string_buffer_contract (basename_of exe_path) b n
          (nvmlSystemGetProcessName proc_exe g pid (Some b) n)"
    by (intro string_query_contract)
      (auto simp: nvmlSystemGetProcessName_def Let_def)
qed

text \<open>
  C8 (amended) at the name of device 0 (21 characters) with capacities 22, 21
  and 0, and at the driver version with capacity 10.
\<close>

theorem string_buffer_contract_holds_witness:
  "nvmlDeviceGetName 1 1 (Some (replicate 22 (CHR ''x''))) 22
     = Some (NVML_SUCCESS, Some (''NVIDIA A100-SXM4-40GB'' @ [NUL]))
   \<and> nvmlDeviceGetName 1 1 (Some (replicate 22 (CHR ''x''))) 21
     = Some (NVML_ERROR_INSUFFICIENT_SIZE, Some (replicate 22 (CHR ''x'')))
   \<and> nvmlDeviceGetName 1 1 (Some (replicate 22 (CHR ''x''))) 0
     = Some (NVML_ERROR_INVALID_ARGUMENT, Some (replicate 22 (CHR ''x'')))
   \<and> nvmlSystemGetDriverVersion 1 (Some (replicate 10 (CHR ''x''))) 10
     = (NVML_SUCCESS, Some (''550.54.15'' @ [NUL]))"
proof -
  have a: "nvml_is_initialized 1" by (simp add: nvml_is_initialized_def)
  have v: "is_valid_device_handle 1" by (simp add: is_valid_device_handle_def)
  have d: "name (device_of_handle 1) = ''NVIDIA A100-SXM4-40GB''"
    by (simp add: device_of_handle_def device_handle_to_index_def v mock_devices_def
        mock_device_0_def)
  have m: "MOCK_DRIVER_VERSION = ''550.54.15''" by (simp add: MOCK_DRIVER_VERSION_def)
  note c = string_buffer_contract_holds [OF a, of 1 _ _ "\<lambda>_. None" 0 "[]"]
  note nm = c [THEN conjunct1, rule_format, OF v, THEN conjunct1, unfolded d]
  note dv = c [THEN conjunct2, THEN conjunct1, unfolded m]
  from nm [of "replicate 22 (CHR ''x'')" 22]
  have 1: "nvmlDeviceGetName 1 1 (Some (replicate 22 (CHR ''x''))) 22
     = Some (NVML_SUCCESS, Some (''NVIDIA A100-SXM4-40GB'' @ [NUL]))"
    by (auto simp: string_buffer_contract_def)
  from nm [of "replicate 22 (CHR ''x'')" 21]
  have 2: "nvmlDeviceGetName 1 1 (Some (replicate 22 (CHR ''x''))) 21
     = Some (NVML_ERROR_INSUFFICIENT_SIZE, Some (replicate 22 (CHR ''x'')))"
    by (auto simp: string_buffer_contract_def)
  from nm [of "replicate 22 (CHR ''x'')" 0]
  have 3: "nvmlDeviceGetName 1 1 (Some (replicate 22 (CHR ''x''))) 0
     = Some (NVML_ERROR_INVALID_ARGUMENT, Some (replicate 22 (CHR ''x'')))"
    by (auto simp: string_buffer_contract_def)
  from dv [of "replicate 10 (CHR ''x'')" 10]
  have 4: "nvmlSystemGetDriverVersion 1 (Some (replicate 10 (CHR ''x''))) 10
     = (NVML_SUCCESS, Some (''550.54.15'' @ [NUL]))"
    by (simp add: string_buffer_contract_def)
  from 1 2 3 4 show ?thesis by (intro conjI)
qed

section \<open>Compute capability and event sets\<close>

lemma fixture_compute_capability:
  "n < 8 \<Longrightarrow>
   cuda_compute_capability_major (mock_devices ! n) = (if 1 \<le> n \<and> n \<le> 6 then 8 else 0)
   \<and> cuda_compute_capability_minor (mock_devices ! n) = 0
   \<and> name (mock_devices ! n) = ''NVIDIA A100-SXM4-40GB''"
proof -
  assume "n < 8"
  then have "n \<in> {0, 1, 2, 3, 4, 5, 6, 7}" by simp arith
  then show ?thesis
    by (auto simp: mock_devices_def mock_device_0_def mock_device_1_def mock_device_2_def
      mock_device_3_def mock_device_4_def mock_device_5_def mock_device_6_def mock_device_7_def)
qed

text \<open>
  C9: the compute-capability query returns major 8, minor 0 for the devices at
  indices 1 to 6 and major 0, minor 0 for the devices at indices 0 and 7, whose
  entries leave the two fields out, although all 8 entries have the same name.
\<close>

theorem compute_capability_not_uniform:
  assumes "nvml_is_initialized g" and "i < 8"
  shows "nvmlDeviceGetCudaComputeCapability g (handle_of_index i) (Some a) (Some b)
      = Some (NVML_SUCCESS, Some (if 1 \<le> i \<and> i \<le> 6 then 8 else 0), Some 0)
    \<and> name (mock_devices ! unat i) = ''NVIDIA A100-SXM4-40GB''"
proof -
  from assms have u: "unat i < 8" by (simp add: word_less_nat_alt)
  have r: "(1 \<le> i \<and> i \<le> 6) = (1 \<le> unat i \<and> unat i \<le> 6)"
    by (simp add: word_le_nat_alt)
  have c: "nvmlDeviceGetCudaComputeCapability g (handle_of_index i) (Some a) (Some b)
      = Some (NVML_SUCCESS, Some (cuda_compute_capability_major (mock_devices ! unat i)),
          Some (cuda_compute_capability_minor (mock_devices ! unat i)))"
    using assms
    by (simp add: nvmlDeviceGetCudaComputeCapability_def encode_valid decode_encode
        mock_devices_at_valid)
  show ?thesis
    unfolding c r using fixture_compute_capability [OF u] by simp
qed

text \<open>
  C9 at the indices 0, 1, 6 and 7.
\<close>

theorem compute_capability_not_uniform_witness:
  "nvmlDeviceGetCudaComputeCapability 1 (handle_of_index 0) (Some 5) (Some 5)
      = Some (NVML_SUCCESS, Some 0, Some 0)
   \<and> nvmlDeviceGetCudaComputeCapability 1 (handle_of_index 1) (Some 5) (Some 5)
      = Some (NVML_SUCCESS, Some 8, Some 0)
   \<and> nvmlDeviceGetCudaComputeCapability 1 (handle_of_index 6) (Some 5) (Some 5)
      = Some (NVML_SUCCESS, Some 8, Some 0)
   \<and> nvmlDeviceGetCudaComputeCapability 1 (handle_of_index 7) (Some 5) (Some 5)
      = Some (NVML_SUCCESS, Some 0, Some 0)"
proof -
  have a: "nvml_is_initialized 1" by (simp add: nvml_is_initialized_def)
  show ?thesis
    using compute_capability_not_uniform [OF a, of 0 5 5]
      compute_capability_not_uniform [OF a, of 1 5 5]
      compute_capability_not_uniform [OF a, of 6 5 5]
      compute_capability_not_uniform [OF a, of 7 5 5]
    by simp
qed

text \<open>
  C10: with an active session, event-set creation with a non-null output
  stores the constant \<^verbatim>\<open>0xDEADBEEF\<close>, so two created event sets have the same
  handle, and event-set free succeeds for any handle value.
\<close>

theorem event_set_constant_handle:
  assumes "nvml_is_initialized g"
  shows "nvmlEventSetCreate g (Some s) = (NVML_SUCCESS, Some 0xDEADBEEF)
    \<and> snd (nvmlEventSetCreate g (Some s)) = snd (nvmlEventSetCreate g (Some s'))
    \<and> nvmlEventSetFree g h = NVML_SUCCESS"
  using assms by (simp add: nvmlEventSetCreate_def nvmlEventSetFree_def)

text \<open>
  C10 at two sessions and two handles.
\<close>

theorem event_set_constant_handle_witness:
  "nvmlEventSetCreate 1 (Some 0) = (NVML_SUCCESS, Some 0xDEADBEEF)
   \<and> nvmlEventSetCreate 2 (Some 77) = (NVML_SUCCESS, Some 0xDEADBEEF)
   \<and> nvmlEventSetFree 1 0 = NVML_SUCCESS \<and> nvmlEventSetFree 1 12345 = NVML_SUCCESS"
proof -
  have a: "nvml_is_initialized 1" and b: "nvml_is_initialized 2"
    by (simp_all add: nvml_is_initialized_def)
  show ?thesis
    using event_set_constant_handle [OF a, of 0 0 0] event_set_constant_handle [OF a, of 0 0 12345]
      event_set_constant_handle [OF b, of 77 0 0]
    by simp
qed

end
